theory Spec2Isabelle
  imports Main
begin

section \<open>Data model of \<^verbatim>\<open>packages/aws-cdk/lib/api/deploy-stack.ts\<close>\<close>

subsection \<open>Thrown values\<close>

text \<open>
  Everything the source throws or catches is read through its \<^verbatim>\<open>code\<close> and
  \<^verbatim>\<open>message\<close> properties. \<^verbatim>\<open>new Error(m)\<close> has no code.
\<close>

datatype exn = Exn (code: "string option") (message: string)

definition Error :: "string \<Rightarrow> exn" where
  "Error m = Exn None m"

subsection \<open>Templates: deserialized documents\<close>

text \<open>
  A template is a deserialized JSON/YAML document. An object lists its properties in
  enumeration order (the order \<^verbatim>\<open>JSON.stringify\<close> and \<^verbatim>\<open>Object.entries\<close> visit them);
  numbers are restricted to integers.
\<close>

datatype json =
    JNull
  | JBool bool
  | JNum int
  | JStr string
  | JArr "json list"
  | JObj "(string \<times> json) list"

text \<open>JavaScript truthiness of a document, as used by \<^verbatim>\<open>x || {}\<close>.\<close>

fun truthy :: "json \<Rightarrow> bool" where
  "truthy JNull = False"
| "truthy (JBool b) = b"
| "truthy (JNum n) = (n \<noteq> 0)"
| "truthy (JStr s) = (s \<noteq> [])"
| "truthy (JArr xs) = True"
| "truthy (JObj kvs) = True"

text \<open>\<^verbatim>\<open>JSON.stringify\<close> without indentation.\<close>

definition hexDigit :: "nat \<Rightarrow> char" where
  "hexDigit n = ''0123456789abcdef'' ! (n mod 16)"

definition escapeChar :: "char \<Rightarrow> string" where
  "escapeChar c =
     (if c = CHR 0x22 then [CHR 0x5C, CHR 0x22]
      else if c = CHR 0x5C then [CHR 0x5C, CHR 0x5C]
      else if c = CHR 0x08 then [CHR 0x5C, CHR ''b'']
      else if c = CHR 0x09 then [CHR 0x5C, CHR ''t'']
      else if c = CHR 0x0A then [CHR 0x5C, CHR ''n'']
      else if c = CHR 0x0C then [CHR 0x5C, CHR ''f'']
      else if c = CHR 0x0D then [CHR 0x5C, CHR ''r'']
      else if of_char c < (32 :: nat)
        then [CHR 0x5C, CHR ''u'', CHR ''0'', CHR ''0'',
              hexDigit (of_char c div 16), hexDigit (of_char c)]
      else [c])"

definition quote :: "string \<Rightarrow> string" where
  "quote s = [CHR 0x22] @ concat (map escapeChar s) @ [CHR 0x22]"

fun digits :: "nat \<Rightarrow> string" where
  "digits n =
     (if n < 10 then [''0123456789'' ! n]
      else digits (n div 10) @ [''0123456789'' ! (n mod 10)])"

definition numberToString :: "int \<Rightarrow> string" where
  "numberToString i = (if i < 0 then ''-'' @ digits (nat (- i)) else digits (nat i))"

fun join :: "string \<Rightarrow> string list \<Rightarrow> string" where
  "join sep [] = []"
| "join sep [x] = x"
| "join sep (x # y # ys) = x @ sep @ join sep (y # ys)"

fun stringify :: "json \<Rightarrow> string" where
  "stringify JNull = ''null''"
| "stringify (JBool b) = (if b then ''true'' else ''false'')"
| "stringify (JNum n) = numberToString n"
| "stringify (JStr s) = quote s"
| "stringify (JArr xs) = ''['' @ join '','' (map stringify xs) @ '']''"
| "stringify (JObj kvs) =
     ''{'' @ join '','' (map (\<lambda>kv. quote (fst kv) @ '':'' @ stringify (snd kv)) kvs) @ ''}''"

text \<open>
  Deep structural equality of two deserialized documents, in the words of the
  specification: arrays are compared element by element, objects as sets of
  key/value properties whatever the order of their keys. It is used only to state what
  the specification asks of the comparison; the source compares with \<open>stringify\<close>.
\<close>

fun deepEqual :: "json \<Rightarrow> json \<Rightarrow> bool" where
  "deepEqual (JArr xs) (JArr ys) = list_all2 deepEqual xs ys"
| "deepEqual (JObj a) (JObj b) =
     (length a = length b \<and>
      (\<forall>kv \<in> set a. case map_of b (fst kv) of
                        None \<Rightarrow> False
                      | Some v' \<Rightarrow> deepEqual (snd kv) v'))"
| "deepEqual x y = (x = y)"

text \<open>\<^verbatim>\<open>String.prototype.includes\<close> (\<open>includes\<close> is a keyword of Isabelle).\<close>

fun includes_str :: "string \<Rightarrow> string \<Rightarrow> bool" where
  "includes_str [] sub = (sub = [])"
| "includes_str (c # cs) sub = (take (length sub) (c # cs) = sub \<or> includes_str cs sub)"

subsection \<open>Artifacts, options and results\<close>

record Environment =
  account :: string
  region :: string
  name :: string

text \<open>\<open>artifactId\<close> is the artifact's \<^verbatim>\<open>id\<close>.\<close>

record CloudFormationStackArtifact =
  artifactId :: string
  displayName :: string
  stackName :: string
  environment :: "Environment option"
  template :: json

record ToolkitInfo =
  bucketUrl :: string

record TemplateBodyParameter =
  TemplateBody :: "string option"
  TemplateURL :: "string option"

record DeployStackResult =
  noOp :: bool
  outputs :: "string \<rightharpoonup> string"
  stackArn :: "string option"
  stackArtifact :: CloudFormationStackArtifact

text \<open>
  \<^verbatim>\<open>DestroyStackOptions\<close> declares \<^verbatim>\<open>stack\<close>, \<^verbatim>\<open>roleArn\<close>, \<^verbatim>\<open>deployName\<close> and \<^verbatim>\<open>quiet\<close>
  with the types \<^verbatim>\<open>DeployStackOptions\<close> gives them, so the second record extends the
  first and both keep the source's field names. An optional property is an \<open>option\<close>.
  The \<^verbatim>\<open>sdk\<close> property is the \<open>remote\<close> record below.
\<close>

record DestroyStackOptions =
  stack :: CloudFormationStackArtifact
  roleArn :: "string option"
  deployName :: "string option"
  quiet :: "bool option"

record DeployStackOptions = DestroyStackOptions +
  toolkitInfo :: "ToolkitInfo option"
  notificationArns :: "string list option"
  reuseAssets :: "string list option"
  tags :: "(string \<times> string) list option"
  execute :: "bool option"
  parameters :: "(string \<times> string option) list option"
  force :: "bool option"

subsection \<open>Values exchanged with the remote service\<close>

record Output =
  OutputKey :: string
  OutputValue :: string

record Stack =
  StackId :: "string option"
  StackStatus :: string
  Outputs :: "Output list option"

record Parameter =
  ParameterKey :: string
  ParameterValue :: string

datatype ChangeSetType = CREATE | UPDATE

text \<open>
  The request of \<^verbatim>\<open>createChangeSet\<close> carries the two properties of the body parameter
  and the properties below.
\<close>

record CreateChangeSetInput = TemplateBodyParameter +
  StackName :: string
  ChangeSetName :: string
  ChangeSetType :: ChangeSetType
  Description :: string
  Parameters :: "Parameter list"
  RoleARN :: "string option"
  NotificationARNs :: "string list option"
  Capabilities :: "string list"
  Tags :: "(string \<times> string) list option"

text \<open>\<open>ChangeSetStackId\<close> is the response's \<^verbatim>\<open>StackId\<close>.\<close>

record CreateChangeSetOutput =
  Id :: "string option"
  ChangeSetStackId :: "string option"

record DescribeChangeSetOutput =
  Status :: "string option"
  StatusReason :: "string option"
  Changes :: "string list option"

record UploadProps =
  s3KeyPrefix :: string
  s3KeySuffix :: string
  contentType :: string

subsection \<open>The log of calls\<close>

text \<open>
  Every call that leaves the module is logged with its arguments and with what it
  answered: \<open>Inl\<close> a thrown value, \<open>Inr\<close> a returned one. The response of
  \<^verbatim>\<open>describeStacks\<close> is its \<^verbatim>\<open>Stacks\<close> property and the response of \<^verbatim>\<open>getTemplate\<close>
  its \<^verbatim>\<open>TemplateBody\<close> property, the only ones the source reads.
\<close>

datatype event =
    CloudFormationEv string string "exn + unit"
  | DescribeStacksEv string "exn + Stack list option"
  | GetTemplateEv string "exn + string option"
  | DescribeStackEv string "exn + Stack option"
  | StackExistsEv string "exn + bool"
  | StackFailedCreatingEv string "exn + bool"
  | WaitForStackEv string "bool option" "exn + Stack option"
  | WaitForChangeSetEv string string "exn + DescribeChangeSetOutput"
  | PrepareAssetsEv "exn + Parameter list"
  | UploadIfChangedEv string UploadProps "exn + string"
  | DeleteStackEv string "string option" "exn + unit"
  | CreateChangeSetEv CreateChangeSetInput "exn + CreateChangeSetOutput"
  | DeleteChangeSetEv string string "exn + unit"
  | ExecuteChangeSetEv string string "exn + unit"
  | MonitorStartEv string "nat option"
  | MonitorStopEv string

text \<open>The calls that change something remotely.\<close>

fun mutating :: "event \<Rightarrow> bool" where
  "mutating (PrepareAssetsEv r) = True"
| "mutating (UploadIfChangedEv c p r) = True"
| "mutating (DeleteStackEv n role r) = True"
| "mutating (CreateChangeSetEv i r) = True"
| "mutating (DeleteChangeSetEv n c r) = True"
| "mutating (ExecuteChangeSetEv n c r) = True"
| "mutating e = False"

fun isCreateChangeSet :: "event \<Rightarrow> bool" where
  "isCreateChangeSet (CreateChangeSetEv i r) = True"
| "isCreateChangeSet e = False"

fun isExecuteChangeSet :: "event \<Rightarrow> bool" where
  "isExecuteChangeSet (ExecuteChangeSetEv n c r) = True"
| "isExecuteChangeSet e = False"



fun isStackExists :: "event \<Rightarrow> bool" where
  "isStackExists (StackExistsEv n r) = True"
| "isStackExists e = False"

fun isDeleteStack :: "event \<Rightarrow> bool" where
  "isDeleteStack (DeleteStackEv n role r) = True"
| "isDeleteStack e = False"

fun isMonitorStart :: "event \<Rightarrow> bool" where
  "isMonitorStart (MonitorStartEv n k) = True"
| "isMonitorStart e = False"

fun isMonitorStop :: "event \<Rightarrow> bool" where
  "isMonitorStop (MonitorStopEv n) = True"
| "isMonitorStop e = False"

subsection \<open>The collaborators the module imports\<close>

text \<open>
  The SDK client, the helpers of \<^verbatim>\<open>./util/cloudformation\<close>, \<^verbatim>\<open>prepareAssets\<close>,
  \<^verbatim>\<open>uuid.v4\<close>, the toolkit's \<^verbatim>\<open>uploadIfChanged\<close> and the two functions of
  \<^verbatim>\<open>../serialize\<close> are not part of this file: they are parameters. A call takes the state
  \<open>'w\<close> of everything outside the module and answers with a thrown or a returned value
  and the next state. The client that \<^verbatim>\<open>sdk.cloudFormation\<close> returns is the set of
  \<open>cfn_\<close> operations of the same record. \<open>statusToString\<close> is
  \<^verbatim>\<open>StackStatus.fromStackDescription\<close> followed by the conversion to a string.
\<close>

record 'w remote =
  sdk_cloudFormation :: "string \<Rightarrow> string \<Rightarrow> 'w \<Rightarrow> (exn + unit) \<times> 'w"
  cfn_describeStacks :: "string \<Rightarrow> 'w \<Rightarrow> (exn + Stack list option) \<times> 'w"
  cfn_getTemplate :: "string \<Rightarrow> 'w \<Rightarrow> (exn + string option) \<times> 'w"
  cfn_deleteStack :: "string \<Rightarrow> string option \<Rightarrow> 'w \<Rightarrow> (exn + unit) \<times> 'w"
  cfn_createChangeSet :: "CreateChangeSetInput \<Rightarrow> 'w \<Rightarrow> (exn + CreateChangeSetOutput) \<times> 'w"
  cfn_deleteChangeSet :: "string \<Rightarrow> string \<Rightarrow> 'w \<Rightarrow> (exn + unit) \<times> 'w"
  cfn_executeChangeSet :: "string \<Rightarrow> string \<Rightarrow> 'w \<Rightarrow> (exn + unit) \<times> 'w"
  describeStack :: "string \<Rightarrow> 'w \<Rightarrow> (exn + Stack option) \<times> 'w"
  stackExists :: "string \<Rightarrow> 'w \<Rightarrow> (exn + bool) \<times> 'w"
  stackFailedCreating :: "string \<Rightarrow> 'w \<Rightarrow> (exn + bool) \<times> 'w"
  waitForStack :: "string \<Rightarrow> bool option \<Rightarrow> 'w \<Rightarrow> (exn + Stack option) \<times> 'w"
  waitForChangeSet :: "string \<Rightarrow> string \<Rightarrow> 'w \<Rightarrow> (exn + DescribeChangeSetOutput) \<times> 'w"
  changeSetHasNoChanges :: "DescribeChangeSetOutput \<Rightarrow> bool"
  prepareAssets ::
    "CloudFormationStackArtifact \<Rightarrow> ToolkitInfo option \<Rightarrow> string list option \<Rightarrow>
     'w \<Rightarrow> (exn + Parameter list) \<times> 'w"
  uploadIfChanged :: "ToolkitInfo \<Rightarrow> string \<Rightarrow> UploadProps \<Rightarrow> 'w \<Rightarrow> (exn + string) \<times> 'w"
  uuid_v4 :: "'w \<Rightarrow> string \<times> 'w"
  toYAML :: "json \<Rightarrow> string"
  deserializeStructure :: "string \<Rightarrow> exn + json"
  statusToString :: "Stack \<Rightarrow> string"

section \<open>Asynchronous functions as state passing\<close>

text \<open>
  An \<^verbatim>\<open>async\<close> function takes the outside state and gives back what it threw or
  returned, the new state, and the log of the calls it made, in order. \<open>await\<close>
  sequences two of them and lets a thrown value pass through, as \<^verbatim>\<open>await\<close> outside of
  a \<^verbatim>\<open>try\<close> does. Output written with \<^verbatim>\<open>debug\<close>, \<^verbatim>\<open>print\<close> and \<^verbatim>\<open>error\<close> is not
  modelled. A call that never answers is outside the model: each collaborator
  answers with a thrown or a returned value.
\<close>

type_synonym ('w, 'a) io = "'w \<Rightarrow> (exn + 'a) \<times> 'w \<times> event list"

definition ret :: "'a \<Rightarrow> ('w, 'a) io" where
  "ret x = (\<lambda>w. (Inr x, w, []))"

definition throw :: "exn \<Rightarrow> ('w, 'a) io" where
  "throw e = (\<lambda>w. (Inl e, w, []))"

definition await :: "('w, 'a) io \<Rightarrow> ('a \<Rightarrow> ('w, 'b) io) \<Rightarrow> ('w, 'b) io" where
  "await m f = (\<lambda>w. case m w of
                       (Inl e, w', tr) \<Rightarrow> (Inl e, w', tr)
                     | (Inr x, w', tr) \<Rightarrow>
                         (case f x w' of (r, w'', tr') \<Rightarrow> (r, w'', tr @ tr')))"

text \<open>A call of a collaborator, logged with its answer; the answer is handed to the
  caller as a value, so that a \<^verbatim>\<open>try\<close> block can inspect it.\<close>

definition call :: "('w \<Rightarrow> (exn + 'a) \<times> 'w) \<Rightarrow> (exn + 'a \<Rightarrow> event) \<Rightarrow> ('w, exn + 'a) io" where
  "call op ev = (\<lambda>w. case op w of (r, w') \<Rightarrow> (Inr r, w', [ev r]))"

text \<open>The same call outside of a \<^verbatim>\<open>try\<close>: a thrown value propagates.\<close>

definition request :: "('w \<Rightarrow> (exn + 'a) \<times> 'w) \<Rightarrow> (exn + 'a \<Rightarrow> event) \<Rightarrow> ('w, 'a) io" where
  "request op ev = await (call op ev) (\<lambda>r. case r of Inl e \<Rightarrow> throw e | Inr x \<Rightarrow> ret x)"

text \<open>The monitor's \<^verbatim>\<open>start\<close> and \<^verbatim>\<open>stop\<close>: logged, and they return.\<close>

definition emit :: "event \<Rightarrow> ('w, unit) io" where
  "emit e = (\<lambda>w. (Inr (), w, [e]))"

text \<open>A value drawn from outside without a remote call (\<^verbatim>\<open>uuid.v4()\<close>).\<close>

definition fresh :: "('w \<Rightarrow> 'a \<times> 'w) \<Rightarrow> ('w, 'a) io" where
  "fresh gen = (\<lambda>w. case gen w of (x, w') \<Rightarrow> (Inr x, w', []))"

section \<open>The functions of the module\<close>

definition LARGE_TEMPLATE_SIZE_KB :: nat where
  "LARGE_TEMPLATE_SIZE_KB = 50"

text \<open>Truthiness of an optional boolean property, as in \<^verbatim>\<open>!options.force\<close>.\<close>

definition isSet :: "bool option \<Rightarrow> bool" where
  "isSet b = (b = Some True)"

text \<open>\<^verbatim>\<open>options.deployName || options.stack.stackName\<close>: an empty name is falsy.\<close>

definition deployNameOf :: "'a DestroyStackOptions_scheme \<Rightarrow> string" where
  "deployNameOf options =
     (case deployName options of
        None \<Rightarrow> stackName (stack options)
      | Some n \<Rightarrow> if n = [] then stackName (stack options) else n)"

text \<open>\<^verbatim>\<open>getStackOutputs\<close> (lines 166 to 175); \<open>collectOutputs\<close> is its lines 168 to 174,
  the dictionary built from a stack description.\<close>

definition collectOutputs :: "Stack option \<Rightarrow> (string \<rightharpoonup> string)" where
  "collectOutputs description =
     (case description of
        None \<Rightarrow> Map.empty
      | Some d \<Rightarrow>
          (case Outputs d of
             None \<Rightarrow> Map.empty
           | Some os \<Rightarrow>
               fold (\<lambda>output result. result(OutputKey output \<mapsto> OutputValue output))
                 os Map.empty))"

definition getStackOutputs :: "'w remote \<Rightarrow> string \<Rightarrow> ('w, string \<rightharpoonup> string) io" where
  "getStackOutputs cfn stackName' =
     await (request (describeStack cfn stackName') (DescribeStackEv stackName')) (\<lambda>description.
     ret (collectOutputs description))"

text \<open>
  \<^verbatim>\<open>makeBodyParameter\<close> (lines 186 to 208). The argument of the call of \<^verbatim>\<open>error\<close> reads
  \<^verbatim>\<open>stack.environment!.name\<close>, which throws a \<^verbatim>\<open>TypeError\<close> when the stack has no
  environment.
\<close>

definition templateTooLarge :: exn where
  "templateTooLarge =
     Error (''Template too large to deploy ('' @ [CHR 0x22] @ ''cdk bootstrap'' @ [CHR 0x22] @
       '' is required)'')"

definition makeBodyParameter ::
  "'w remote \<Rightarrow> CloudFormationStackArtifact \<Rightarrow> ToolkitInfo option \<Rightarrow>
   ('w, TemplateBodyParameter) io" where
  "makeBodyParameter sdk stack' toolkitInfo' =
     (let templateJson = toYAML sdk (template stack') in
      case toolkitInfo' of
        Some tk \<Rightarrow>
          (let props = \<lparr>s3KeyPrefix = ''cdk/'' @ artifactId stack' @ ''/'',
                        s3KeySuffix = ''.yml'',
                        contentType = ''application/x-yaml''\<rparr> in
           await (request (uploadIfChanged sdk tk templateJson props)
                    (UploadIfChangedEv templateJson props)) (\<lambda>key.
           ret \<lparr>TemplateBody = None, TemplateURL = Some (bucketUrl tk @ ''/'' @ key)\<rparr>))
      | None \<Rightarrow>
          if length templateJson > LARGE_TEMPLATE_SIZE_KB * 1024 then
            (case environment stack' of
               None \<Rightarrow> throw (Error ''Cannot read property name of undefined'')
             | Some env \<Rightarrow> throw templateTooLarge)
          else ret \<lparr>TemplateBody = Some templateJson, TemplateURL = None\<rparr>)"

text \<open>\<^verbatim>\<open>readCurrentTemplate\<close> (lines 251 to 262): both the call and the
  deserialization are inside the \<^verbatim>\<open>try\<close> block; \<open>notFoundHandler\<close> is the
  \<^verbatim>\<open>catch\<close> block.\<close>

definition notFoundHandler :: "string \<Rightarrow> exn \<Rightarrow> ('w, json) io" where
  "notFoundHandler stackName' e =
     (if code e = Some ''ValidationError'' \<and>
         message e = ''Stack with id '' @ stackName' @ '' does not exist''
      then ret (JObj [])
      else throw e)"

definition readCurrentTemplate :: "'w remote \<Rightarrow> string \<Rightarrow> ('w, json) io" where
  "readCurrentTemplate cfn stackName' =
     await (call (cfn_getTemplate cfn stackName') (GetTemplateEv stackName')) (\<lambda>response.
     case response of
       Inl e \<Rightarrow> notFoundHandler stackName' e
     | Inr None \<Rightarrow> ret (JObj [])
     | Inr (Some body) \<Rightarrow>
         if body = [] then ret (JObj [])
         else (case deserializeStructure cfn body of
                 Inl e \<Rightarrow> notFoundHandler stackName' e
               | Inr doc \<Rightarrow> ret (if truthy doc then doc else JObj [])))"

text \<open>\<^verbatim>\<open>getStackId\<close> (lines 264 to 282).\<close>

definition getStackId :: "'w remote \<Rightarrow> string \<Rightarrow> ('w, string option) io" where
  "getStackId cfn stackName' =
     await (call (cfn_describeStacks cfn stackName') (DescribeStacksEv stackName')) (\<lambda>stacks.
     case stacks of
       Inl e \<Rightarrow> if includes_str (message e) ''does not exist'' then ret None else throw e
     | Inr None \<Rightarrow> ret None
     | Inr (Some l) \<Rightarrow> if length l \<noteq> 1 then ret None else ret (StackId (l ! 0)))"

text \<open>\<^verbatim>\<open>getDeployedTemplate\<close> (lines 241 to 249): the pair is
  \<^verbatim>\<open>{ stackId, template }\<close>; an absent or empty stack id is falsy.\<close>

definition getDeployedTemplate :: "'w remote \<Rightarrow> string \<Rightarrow> ('w, (string \<times> json) option) io" where
  "getDeployedTemplate cfn stackName' =
     await (getStackId cfn stackName') (\<lambda>stackId.
     case stackId of
       None \<Rightarrow> ret None
     | Some i \<Rightarrow>
         if i = [] then ret None
         else await (readCurrentTemplate cfn stackName') (\<lambda>t. ret (Some (i, t))))"

text \<open>The loop of lines 98 to 105 over \<^verbatim>\<open>Object.entries(options.parameters || {})\<close>:
  the entries pushed after the asset parameters.\<close>

definition passedParameters :: "(string \<times> string option) list option \<Rightarrow> Parameter list" where
  "passedParameters ps =
     List.map_filter
       (\<lambda>(paramName, paramValue).
          case paramValue of
            None \<Rightarrow> None
          | Some v \<Rightarrow>
              if v = [] then None
              else Some \<lparr>ParameterKey = paramName, ParameterValue = v\<rparr>)
       (case ps of None \<Rightarrow> [] | Some l \<Rightarrow> l)"

text \<open>
  \<^verbatim>\<open>deployStack\<close> (lines 68 to 163) is written in parts, each going on with the next
  lines of the source, from the last part to the first. \<open>dname\<close> is \<^verbatim>\<open>deployName\<close>.

  Lines 111 to 118: the statement that deletes a stack that failed creation.
\<close>

definition failedDeleting :: "string \<Rightarrow> string \<Rightarrow> exn" where
  "failedDeleting dname status =
     Error (''Failed deleting stack '' @ dname @
       '' that had previously failed creation (current state: '' @ status @ '')'')"

definition recoverFailedCreation :: "'w remote \<Rightarrow> string \<Rightarrow> ('w, unit) io" where
  "recoverFailedCreation sdk dname =
     await (request (stackFailedCreating sdk dname) (StackFailedCreatingEv dname)) (\<lambda>failedCreating.
     if failedCreating then
       await (request (cfn_deleteStack sdk dname None) (DeleteStackEv dname None)) (\<lambda>_.
       await (request (waitForStack sdk dname (Some False))
                (WaitForStackEv dname (Some False))) (\<lambda>deletedStack.
       case deletedStack of
         None \<Rightarrow> ret ()
       | Some d \<Rightarrow>
           if StackStatus d \<noteq> ''DELETE_COMPLETE'' then throw (failedDeleting dname (StackStatus d))
           else ret ()))
     else ret ())"

text \<open>Lines 147 to 161: the changeset is executed, or left in review.\<close>

definition executeOrReview ::
  "'w remote \<Rightarrow> DeployStackOptions \<Rightarrow> string \<Rightarrow> string \<Rightarrow> DescribeChangeSetOutput \<Rightarrow>
   ('w, unit) io" where
  "executeOrReview sdk options dname changeSetName changeSetDescription =
     (if (case execute options of None \<Rightarrow> True | Some b \<Rightarrow> b) then
        await (request (cfn_executeChangeSet sdk dname changeSetName)
                 (ExecuteChangeSetEv dname changeSetName)) (\<lambda>_.
        await (if isSet (quiet options) then ret False
               else await (emit (MonitorStartEv dname
                             (Some (length (case Changes changeSetDescription of
                                              None \<Rightarrow> []
                                            | Some cs \<Rightarrow> cs)))))
                      (\<lambda>_. ret True)) (\<lambda>monitor.
        await (request (waitForStack sdk dname None) (WaitForStackEv dname None)) (\<lambda>_.
        if monitor then emit (MonitorStopEv dname) else ret ())))
      else ret ())"

text \<open>Lines 141 to 162: the empty changeset is deleted, any other is executed or left
  in review, and the result is returned.\<close>

definition deployStack_finish ::
  "'w remote \<Rightarrow> DeployStackOptions \<Rightarrow> string \<Rightarrow> string \<Rightarrow> CreateChangeSetOutput \<Rightarrow>
   DescribeChangeSetOutput \<Rightarrow> ('w, DeployStackResult) io" where
  "deployStack_finish sdk options dname changeSetName changeSet changeSetDescription =
     (if changeSetHasNoChanges sdk changeSetDescription then
        await (request (cfn_deleteChangeSet sdk dname changeSetName)
                 (DeleteChangeSetEv dname changeSetName)) (\<lambda>_.
        await (getStackOutputs sdk dname) (\<lambda>outs.
        ret \<lparr>noOp = True, outputs = outs, stackArn = ChangeSetStackId changeSet,
             stackArtifact = stack options\<rparr>))
      else
        await (executeOrReview sdk options dname changeSetName changeSetDescription) (\<lambda>_.
        await (getStackOutputs sdk dname) (\<lambda>outs.
        ret \<lparr>noOp = False, outputs = outs, stackArn = ChangeSetStackId changeSet,
             stackArtifact = stack options\<rparr>)))"

text \<open>Lines 120 to 139: the changeset is created and awaited; the function goes on
  with the lines above.\<close>

definition deployStack_changeSet ::
  "'w remote \<Rightarrow> DeployStackOptions \<Rightarrow> string \<Rightarrow> Parameter list \<Rightarrow> string \<Rightarrow>
   TemplateBodyParameter \<Rightarrow> ('w, DeployStackResult) io" where
  "deployStack_changeSet sdk options dname params executionId bodyParameter =
     await (request (stackExists sdk dname) (StackExistsEv dname)) (\<lambda>update.
     let changeSetName = ''CDK-'' @ executionId;
         input = \<lparr>TemplateBody = TemplateBody bodyParameter,
                  TemplateURL = TemplateURL bodyParameter,
                  StackName = dname,
                  ChangeSetName = changeSetName,
                  ChangeSetType = (if update then UPDATE else CREATE),
                  Description = ''CDK Changeset for execution '' @ executionId,
                  Parameters = params,
                  RoleARN = roleArn options,
                  NotificationARNs = notificationArns options,
                  Capabilities =
                    [''CAPABILITY_IAM'', ''CAPABILITY_NAMED_IAM'', ''CAPABILITY_AUTO_EXPAND''],
                  Tags = tags options\<rparr> in
     await (request (cfn_createChangeSet sdk input) (CreateChangeSetEv input)) (\<lambda>changeSet.
     await (request (waitForChangeSet sdk dname changeSetName)
              (WaitForChangeSetEv dname changeSetName)) (\<lambda>changeSetDescription.
     deployStack_finish sdk options dname changeSetName changeSet changeSetDescription)))"

text \<open>Lines 95 to 118: what the function does once the skip check of lines 76 to 90
  has not returned; it goes on with the lines above.\<close>

definition deployStack_assets ::
  "'w remote \<Rightarrow> DeployStackOptions \<Rightarrow> string \<Rightarrow> ('w, DeployStackResult) io" where
  "deployStack_assets sdk options dname =
     await (request (prepareAssets sdk (stack options) (toolkitInfo options) (reuseAssets options))
              PrepareAssetsEv) (\<lambda>assetParams.
     let params = assetParams @ passedParameters (parameters options) in
     await (fresh (uuid_v4 sdk)) (\<lambda>executionId.
     await (makeBodyParameter sdk (stack options) (toolkitInfo options)) (\<lambda>bodyParameter.
     await (recoverFailedCreation sdk dname) (\<lambda>_.
     deployStack_changeSet sdk options dname params executionId bodyParameter))))"

text \<open>Lines 68 to 90, falling through to line 95.\<close>

definition noEnvironment :: "CloudFormationStackArtifact \<Rightarrow> exn" where
  "noEnvironment stack' =
     Error (''The stack '' @ displayName stack' @ '' does not have an environment'')"

definition deployStack :: "'w remote \<Rightarrow> DeployStackOptions \<Rightarrow> ('w, DeployStackResult) io" where
  "deployStack sdk options =
     (case environment (stack options) of
        None \<Rightarrow> throw (noEnvironment (stack options))
      | Some env \<Rightarrow>
          await (request (sdk_cloudFormation sdk (account env) (region env))
                   (CloudFormationEv (account env) (region env))) (\<lambda>cfn.
          let dname = deployNameOf options in
          if \<not> isSet (force options) then
            await (getDeployedTemplate sdk dname) (\<lambda>deployed.
            case deployed of
              None \<Rightarrow> deployStack_assets sdk options dname
            | Some (stackId, deployedTemplate) \<Rightarrow>
                if stringify (template (stack options)) = stringify deployedTemplate then
                  await (getStackOutputs sdk dname) (\<lambda>outs.
                  ret \<lparr>noOp = True, outputs = outs, stackArn = Some stackId,
                       stackArtifact = stack options\<rparr>)
                else deployStack_assets sdk options dname)
          else deployStack_assets sdk options dname))"

text \<open>\<^verbatim>\<open>destroyStack\<close> (lines 220 to 239).\<close>

definition destroyStack :: "'w remote \<Rightarrow> DestroyStackOptions \<Rightarrow> ('w, unit) io" where
  "destroyStack sdk options =
     (case environment (stack options) of
        None \<Rightarrow> throw (noEnvironment (stack options))
      | Some env \<Rightarrow>
          (let dname = deployNameOf options in
           await (request (sdk_cloudFormation sdk (account env) (region env))
                    (CloudFormationEv (account env) (region env))) (\<lambda>cfn.
           await (request (stackExists sdk dname) (StackExistsEv dname)) (\<lambda>exists.
           if \<not> exists then ret ()
           else
             await (if isSet (quiet options) then ret False
                    else await (emit (MonitorStartEv dname None)) (\<lambda>_. ret True)) (\<lambda>monitor.
             await (request (cfn_deleteStack sdk dname (roleArn options))
                      (DeleteStackEv dname (roleArn options))) (\<lambda>_.
             await (request (waitForStack sdk dname (Some False))
                      (WaitForStackEv dname (Some False))) (\<lambda>destroyedStack.
             await (if monitor then emit (MonitorStopEv dname) else ret ()) (\<lambda>_.
             case destroyedStack of
               None \<Rightarrow> ret ()
             | Some d \<Rightarrow>
                 if StackStatus d \<noteq> ''DELETE_COMPLETE'' then
                   throw (Error (''Failed to destroy '' @ dname @ '': '' @ statusToString sdk d))
                 else ret ()))))))))"

section \<open>Concrete inputs\<close>

text \<open>
  A stack, its options and a service on which the functions are run: every call
  succeeds, no stack is deployed, and the changeset has one change.
\<close>

definition exampleStack :: CloudFormationStackArtifact where
  "exampleStack =
     \<lparr>artifactId = ''Orders'', displayName = ''Orders'', stackName = ''Orders'',
      environment = Some \<lparr>account = ''123'', region = ''eu-west-1'', name = ''prod''\<rparr>,
      template = JObj [(''a'', JNum 1), (''b'', JNum 2)]\<rparr>"

definition exampleOptions :: DeployStackOptions where
  "exampleOptions =
     \<lparr>stack = exampleStack, roleArn = None, deployName = None, quiet = None,
      toolkitInfo = None, notificationArns = None, reuseAssets = None, tags = None,
      execute = None, parameters = None, force = None\<rparr>"

definition oneChange :: DescribeChangeSetOutput where
  "oneChange =
     \<lparr>Status = Some ''CREATE_COMPLETE'', StatusReason = None, Changes = Some [''Add Bucket'']\<rparr>"

definition exampleService :: "unit remote" where
  "exampleService =
     \<lparr>sdk_cloudFormation = (\<lambda>a r w. (Inr (), w)),
      cfn_describeStacks = (\<lambda>n w. (Inr (Some []), w)),
      cfn_getTemplate = (\<lambda>n w. (Inr None, w)),
      cfn_deleteStack = (\<lambda>n role w. (Inr (), w)),
      cfn_createChangeSet =
        (\<lambda>i w. (Inr \<lparr>Id = Some ''cs-1'', ChangeSetStackId = Some ''arn:Orders''\<rparr>, w)),
      cfn_deleteChangeSet = (\<lambda>n c w. (Inr (), w)),
      cfn_executeChangeSet = (\<lambda>n c w. (Inr (), w)),
      describeStack = (\<lambda>n w. (Inr None, w)),
      stackExists = (\<lambda>n w. (Inr False, w)),
      stackFailedCreating = (\<lambda>n w. (Inr False, w)),
      waitForStack = (\<lambda>n f w. (Inr None, w)),
      waitForChangeSet = (\<lambda>n c w. (Inr oneChange, w)),
      changeSetHasNoChanges = (\<lambda>d. Status d = Some ''FAILED''),
      prepareAssets = (\<lambda>st tk reuse w. (Inr [], w)),
      uploadIfChanged = (\<lambda>tk content props w. (Inr ''abc.yml'', w)),
      uuid_v4 = (\<lambda>w. (''0001'', w)),
      toYAML = stringify,
      deserializeStructure = (\<lambda>body. Inr (JObj [(''b'', JNum 2), (''a'', JNum 1)])),
      statusToString = StackStatus\<rparr>"

definition oversizedService :: "unit remote" where
  "oversizedService = exampleService\<lparr>toYAML := (\<lambda>doc. replicate 51201 (CHR ''x''))\<rparr>"

definition exampleToolkit :: ToolkitInfo where
  "exampleToolkit = \<lparr>bucketUrl = ''https://bucket''\<rparr>"

text \<open>The error with which the remote service says that a stack does not exist, and a
  service that answers with it.\<close>

definition notFound :: "string \<Rightarrow> exn" where
  "notFound n = Exn (Some ''ValidationError'') (''Stack with id '' @ n @ '' does not exist'')"

definition absentService :: "unit remote" where
  "absentService =
     exampleService
       \<lparr>cfn_describeStacks := (\<lambda>n w. (Inl (notFound n), w)),
        cfn_getTemplate := (\<lambda>n w. (Inl (notFound n), w))\<rparr>"

definition exampleDestroyOptions :: DestroyStackOptions where
  "exampleDestroyOptions =
     \<lparr>stack = exampleStack, roleArn = None, deployName = None, quiet = None\<rparr>"

text \<open>A deployed stack whose template lists the keys of the example template in another
  order, and the same stack with the keys in the same order.\<close>

definition deployedStack :: Stack where
  "deployedStack =
     \<lparr>StackId = Some ''arn:Orders'', StackStatus = ''CREATE_COMPLETE'',
      Outputs = Some [\<lparr>OutputKey = ''Url'', OutputValue = ''https://orders''\<rparr>,
                      \<lparr>OutputKey = ''Queue'', OutputValue = ''orders-queue''\<rparr>]\<rparr>"

definition deployedService :: "unit remote" where
  "deployedService =
     exampleService
       \<lparr>cfn_describeStacks := (\<lambda>n w. (Inr (Some [deployedStack]), w)),
        cfn_getTemplate := (\<lambda>n w. (Inr (Some ''{b: 2, a: 1}''), w)),
        describeStack := (\<lambda>n w. (Inr (Some deployedStack), w)),
        stackExists := (\<lambda>n w. (Inr True, w))\<rparr>"

definition unchangedService :: "unit remote" where
  "unchangedService =
     deployedService
       \<lparr>cfn_getTemplate := (\<lambda>n w. (Inr (Some ''{a: 1, b: 2}''), w)),
        deserializeStructure := (\<lambda>body. Inr (JObj [(''a'', JNum 1), (''b'', JNum 2)]))\<rparr>"

text \<open>A stack with an empty template, and a service whose \<^verbatim>\<open>describeStacks\<close> finds the
  deployed stack while its \<^verbatim>\<open>getTemplate\<close> says that the stack does not exist.\<close>

definition emptyStack :: CloudFormationStackArtifact where
  "emptyStack = exampleStack\<lparr>template := JObj []\<rparr>"

definition emptyOptions :: DeployStackOptions where
  "emptyOptions = exampleOptions\<lparr>stack := emptyStack\<rparr>"

definition vanishedService :: "unit remote" where
  "vanishedService = deployedService\<lparr>cfn_getTemplate := (\<lambda>n w. (Inl (notFound n), w))\<rparr>"

text \<open>A stack that failed creation and cannot be deleted; a changeset without changes;
  options that leave the changeset in review; a wait for the stack that throws.\<close>

definition stuckStack :: Stack where
  "stuckStack = \<lparr>StackId = Some ''arn:Orders'', StackStatus = ''DELETE_FAILED'', Outputs = None\<rparr>"

definition failedCreationService :: "unit remote" where
  "failedCreationService =
     exampleService
       \<lparr>stackFailedCreating := (\<lambda>n w. (Inr True, w)),
        waitForStack := (\<lambda>n f w. (Inr (Some stuckStack), w))\<rparr>"

definition emptyChangeSet :: DescribeChangeSetOutput where
  "emptyChangeSet =
     \<lparr>Status = Some ''FAILED'',
      StatusReason = Some ''The submitted information didn't contain changes.'',
      Changes = None\<rparr>"

definition emptyChangeSetService :: "unit remote" where
  "emptyChangeSetService =
     deployedService\<lparr>waitForChangeSet := (\<lambda>n c w. (Inr emptyChangeSet, w))\<rparr>"

definition reviewOptions :: DeployStackOptions where
  "reviewOptions = exampleOptions\<lparr>execute := Some False\<rparr>"

definition waitError :: exn where
  "waitError = Error ''The stack named Orders is in a failed state: UPDATE_ROLLBACK_COMPLETE''"

definition failingWaitService :: "unit remote" where
  "failingWaitService =
     exampleService
       \<lparr>stackExists := (\<lambda>n w. (Inr True, w)),
        waitForStack := (\<lambda>n f w. (Inl waitError, w))\<rparr>"

text \<open>A stack that exists and stays, in \<^verbatim>\<open>DELETE_FAILED\<close>, after its deletion.\<close>

definition undeletableService :: "unit remote" where
  "undeletableService =
     failingWaitService\<lparr>waitForStack := (\<lambda>n f w. (Inr (Some stuckStack), w))\<rparr>"

section \<open>The monitor's calls\<close>

text \<open>The starts and stops of the monitor in a log, in order.\<close>

definition monitorCalls :: "event list \<Rightarrow> event list" where
  "monitorCalls tr = filter (\<lambda>e. isMonitorStart e \<or> isMonitorStop e) tr"

section \<open>Outcomes of the recovery\<close>


section \<open>Running the functions\<close>

lemma ret_run: "ret x w = (Inr x, w, [])"
  by (simp add: ret_def)

lemma throw_run: "throw e w = (Inl e, w, [])"
  by (simp add: throw_def)

lemma await_run:
  "await m f w =
     (case m w of
        (Inl e, w', tr) \<Rightarrow> (Inl e, w', tr)
      | (Inr x, w', tr) \<Rightarrow> (case f x w' of (r, w'', tr') \<Rightarrow> (r, w'', tr @ tr')))"
  by (simp add: await_def)

lemma call_run: "call op ev w = (case op w of (r, w') \<Rightarrow> (Inr r, w', [ev r]))"
  by (simp add: call_def)

lemma request_run: "request op ev w = (case op w of (r, w') \<Rightarrow> (r, w', [ev r]))"
  by (simp add: request_def await_def call_def ret_def throw_def split: prod.splits sum.splits)

lemma emit_run: "emit e w = (Inr (), w, [e])"
  by (simp add: emit_def)

lemma fresh_run: "fresh gen w = (case gen w of (x, w') \<Rightarrow> (Inr x, w', []))"
  by (simp add: fresh_def)

lemmas run_simps = ret_run throw_run await_run call_run request_run emit_run fresh_run

section \<open>The calls each part makes\<close>

text \<open>
  Each of the lemmas below lists the ways one part of the module can run: which calls
  it logs, and what it throws or returns.
\<close>

lemma awaitE:
  assumes "await m f w = (r, w', tr)"
  obtains (throws) e where "m w = (Inl e, w', tr)" and "r = Inl e"
  | (returns) x w1 tr1 tr2 where "m w = (Inr x, w1, tr1)" and "f x w1 = (r, w', tr2)"
      and "tr = tr1 @ tr2"
  using assms by (auto simp: await_def split: prod.splits sum.splits)

lemma requestE:
  assumes "request op ev w = (r, w', tr)"
  obtains "op w = (r, w')" and "tr = [ev r]"
  using assms by (auto simp: request_run split: prod.splits)

lemma getStackOutputs_cases:
  assumes "getStackOutputs sdk n w = (r, w', tr)"
  shows "\<exists>a. describeStack sdk n w = (a, w') \<and> tr = [DescribeStackEv n a] \<and>
             r = (case a of Inl e \<Rightarrow> Inl e | Inr d \<Rightarrow> Inr (collectOutputs d))"
  using assms
  by (auto simp: getStackOutputs_def run_simps split: prod.splits sum.splits)

lemma makeBodyParameter_log:
  assumes "makeBodyParameter sdk st tk w = (r, w', tr)"
  shows "tr = [] \<or> (\<exists>c p a. tr = [UploadIfChangedEv c p a])"
  using assms
  by (auto simp: makeBodyParameter_def Let_def run_simps split: option.splits prod.splits sum.splits if_splits)

lemma recoverFailedCreation_cases:
  assumes "recoverFailedCreation sdk n w = (r, w', tr)"
  shows "(\<exists>e. tr = [StackFailedCreatingEv n (Inl e)] \<and> r = Inl e) \<or>
         (tr = [StackFailedCreatingEv n (Inr False)] \<and> r = Inr ()) \<or>
         (\<exists>e. tr = [StackFailedCreatingEv n (Inr True), DeleteStackEv n None (Inl e)] \<and>
              r = Inl e) \<or>
         (\<exists>e. tr = [StackFailedCreatingEv n (Inr True), DeleteStackEv n None (Inr ()),
                    WaitForStackEv n (Some False) (Inl e)] \<and>
              r = Inl e) \<or>
         (\<exists>d. tr = [StackFailedCreatingEv n (Inr True), DeleteStackEv n None (Inr ()),
                    WaitForStackEv n (Some False) (Inr (Some d))] \<and>
              StackStatus d \<noteq> ''DELETE_COMPLETE'' \<and>
              r = Inl (failedDeleting n (StackStatus d))) \<or>
         (\<exists>d. tr = [StackFailedCreatingEv n (Inr True), DeleteStackEv n None (Inr ()),
                    WaitForStackEv n (Some False) (Inr d)] \<and>
              (d = None \<or> (\<exists>s. d = Some s \<and> StackStatus s = ''DELETE_COMPLETE'')) \<and>
              r = Inr ())"
  using assms
  by (auto simp: recoverFailedCreation_def run_simps
        split: option.splits prod.splits sum.splits if_splits)

lemma executeOrReview_cases:
  assumes "executeOrReview sdk options n c d w = (r, w', tr)"
  shows "(execute options = Some False \<and> tr = [] \<and> r = Inr ()) \<or>
         (execute options \<noteq> Some False \<and>
           ((\<exists>e. tr = [ExecuteChangeSetEv n c (Inl e)] \<and> r = Inl e) \<or>
            (\<exists>b k. tr = [ExecuteChangeSetEv n c (Inr ())] @
                      (if isSet (quiet options) then [] else [MonitorStartEv n k]) @
                      [WaitForStackEv n None b] @
                      (if isSet (quiet options) \<or> isl b then [] else [MonitorStopEv n]) \<and>
                  r = (case b of Inl e \<Rightarrow> Inl e | Inr _ \<Rightarrow> Inr ()))))"
  using assms
  by (auto simp: executeOrReview_def run_simps split: option.splits prod.splits sum.splits if_splits)

lemma deployStack_finish_cases:
  assumes "deployStack_finish sdk options n c cs d w = (res, w', tr)"
  obtains (deleteThrows) e where "changeSetHasNoChanges sdk d"
      and "tr = [DeleteChangeSetEv n c (Inl e)]" and "res = Inl e"
  | (deleted) a where "changeSetHasNoChanges sdk d"
      and "tr = [DeleteChangeSetEv n c (Inr ()), DescribeStackEv n a]"
      and "res = (case a of
                    Inl e \<Rightarrow> Inl e
                  | Inr sd \<Rightarrow> Inr \<lparr>noOp = True, outputs = collectOutputs sd,
                                   stackArn = ChangeSetStackId cs,
                                   stackArtifact = stack options\<rparr>)"
  | (executeThrows) e where "\<not> changeSetHasNoChanges sdk d"
      and "executeOrReview sdk options n c d w = (Inl e, w', tr)" and "res = Inl e"
  | (changed) w1 ex a where "\<not> changeSetHasNoChanges sdk d"
      and "executeOrReview sdk options n c d w = (Inr (), w1, ex)"
      and "tr = ex @ [DescribeStackEv n a]"
      and "res = (case a of
                    Inl e \<Rightarrow> Inl e
                  | Inr sd \<Rightarrow> Inr \<lparr>noOp = False, outputs = collectOutputs sd,
                                   stackArn = ChangeSetStackId cs,
                                   stackArtifact = stack options\<rparr>)"
proof (cases "changeSetHasNoChanges sdk d")
  case True
  with assms show ?thesis
    unfolding deployStack_finish_def
    by (auto elim!: awaitE requestE dest!: getStackOutputs_cases simp: ret_run
          intro: deleteThrows deleted split: sum.splits)
next
  case False
  with assms show ?thesis
    unfolding deployStack_finish_def
    by (auto elim!: awaitE requestE dest!: getStackOutputs_cases simp: ret_run
          intro: executeThrows changed split: sum.splits)
qed

lemma deployStack_changeSet_cases:
  assumes "deployStack_changeSet sdk options n params ident body w = (res, w', tr)"
  obtains (existsThrows) e where "tr = [StackExistsEv n (Inl e)]" and "res = Inl e"
  | (createThrows) u i e where "tr = [StackExistsEv n (Inr u), CreateChangeSetEv i (Inl e)]"
      and "res = Inl e"
  | (waitThrows) u i cs e where
      "tr = [StackExistsEv n (Inr u), CreateChangeSetEv i (Inr cs),
             WaitForChangeSetEv n (''CDK-'' @ ident) (Inl e)]" and "res = Inl e"
  | (stabilized) u i cs d w1 fin where
      "tr = [StackExistsEv n (Inr u), CreateChangeSetEv i (Inr cs),
             WaitForChangeSetEv n (''CDK-'' @ ident) (Inr d)] @ fin"
      and "deployStack_finish sdk options n (''CDK-'' @ ident) cs d w1 = (res, w', fin)"
  using assms
  unfolding deployStack_changeSet_def Let_def
  by (elim awaitE requestE) auto

lemma deployStack_assets_cases:
  assumes "deployStack_assets sdk options n w = (res, w', tr)"
  obtains (assetsThrow) e where "tr = [PrepareAssetsEv (Inl e)]" and "res = Inl e"
  | (bodyThrows) a w1 mb e where
      "makeBodyParameter sdk (stack options) (toolkitInfo options) w1 = (Inl e, w', mb)"
      and "tr = PrepareAssetsEv (Inr a) # mb" and "res = Inl e"
  | (recoveryThrows) a w1 w2 mb body rec e where
      "makeBodyParameter sdk (stack options) (toolkitInfo options) w1 = (Inr body, w2, mb)"
      and "recoverFailedCreation sdk n w2 = (Inl e, w', rec)"
      and "tr = PrepareAssetsEv (Inr a) # mb @ rec" and "res = Inl e"
  | (goesOn) a w1 w2 mb body w3 rec p ident rest where
      "makeBodyParameter sdk (stack options) (toolkitInfo options) w1 = (Inr body, w2, mb)"
      and "recoverFailedCreation sdk n w2 = (Inr (), w3, rec)"
      and "deployStack_changeSet sdk options n p ident body w3 = (res, w', rest)"
      and "tr = PrepareAssetsEv (Inr a) # mb @ rec @ rest"
  using assms
  unfolding deployStack_assets_def Let_def
  by (elim awaitE requestE) (auto simp: fresh_run split: prod.splits)


lemma getStackId_log:
  assumes "getStackId sdk n w = (r, w', tr)"
  shows "\<exists>a. tr = [DescribeStacksEv n a]"
  using assms
  by (auto simp: getStackId_def run_simps split: prod.splits sum.splits option.splits if_splits)

lemma readCurrentTemplate_log:
  assumes "readCurrentTemplate sdk n w = (r, w', tr)"
  shows "\<exists>a. tr = [GetTemplateEv n a]"
  using assms
  by (auto simp: readCurrentTemplate_def notFoundHandler_def run_simps
        split: prod.splits sum.splits option.splits if_splits)

lemma getDeployedTemplate_log:
  assumes "getDeployedTemplate sdk n w = (r, w', tr)"
  shows "(\<exists>a. tr = [DescribeStacksEv n a]) \<or> (\<exists>a b. tr = [DescribeStacksEv n a, GetTemplateEv n b])"
  using assms
  unfolding getDeployedTemplate_def
  by (auto elim!: awaitE dest!: getStackId_log readCurrentTemplate_log simp: ret_run
        split: option.splits if_splits)

lemma deployStack_cases:
  assumes "deployStack sdk options w = (res, w', tr)"
  obtains (noEnvironment) "environment (stack options) = None" and "tr = []"
      and "res = Inl (noEnvironment (stack options))"
  | (clientThrows) env e where "environment (stack options) = Some env"
      and "tr = [CloudFormationEv (account env) (region env) (Inl e)]" and "res = Inl e"
  | (forced) env w1 rest where "environment (stack options) = Some env"
      and "isSet (force options)"
      and "deployStack_assets sdk options (deployNameOf options) w1 = (res, w', rest)"
      and "tr = CloudFormationEv (account env) (region env) (Inr ()) # rest"
  | (lookupThrows) env w1 gd e where "environment (stack options) = Some env"
      and "\<not> isSet (force options)"
      and "getDeployedTemplate sdk (deployNameOf options) w1 = (Inl e, w', gd)"
      and "tr = CloudFormationEv (account env) (region env) (Inr ()) # gd" and "res = Inl e"
  | (skipped) env w1 w2 gd stackId deployed a where "environment (stack options) = Some env"
      and "\<not> isSet (force options)"
      and "getDeployedTemplate sdk (deployNameOf options) w1 = (Inr (Some (stackId, deployed)), w2, gd)"
      and "stringify (template (stack options)) = stringify deployed"
      and "tr = CloudFormationEv (account env) (region env) (Inr ()) # gd @
                 [DescribeStackEv (deployNameOf options) a]"
      and "res = (case a of
                    Inl e \<Rightarrow> Inl e
                  | Inr sd \<Rightarrow> Inr \<lparr>noOp = True, outputs = collectOutputs sd,
                                   stackArn = Some stackId,
                                   stackArtifact = stack options\<rparr>)"
  | (changed) env w1 w2 gd found rest where "environment (stack options) = Some env"
      and "\<not> isSet (force options)"
      and "getDeployedTemplate sdk (deployNameOf options) w1 = (Inr found, w2, gd)"
      and "deployStack_assets sdk options (deployNameOf options) w2 = (res, w', rest)"
      and "tr = CloudFormationEv (account env) (region env) (Inr ()) # gd @ rest"
proof (cases "environment (stack options)")
  case None
  with assms show ?thesis
    by (auto simp: deployStack_def throw_run intro: noEnvironment)
next
  case (Some env)
  show ?thesis
  proof (cases "isSet (force options)")
    case True
    with assms Some show ?thesis
      unfolding deployStack_def Let_def
      by (auto elim!: awaitE requestE intro: clientThrows forced)
  next
    case False
    with assms Some show ?thesis
      unfolding deployStack_def Let_def
      apply (auto elim!: awaitE requestE dest!: getStackOutputs_cases simp: ret_run
            intro: clientThrows lookupThrows
            split: option.splits if_splits sum.splits)
         apply (rule changed; assumption)
        apply (rule skipped[where a = "Inl _"]; (assumption | simp))
       apply (rule skipped[where a = "Inr _"]; (assumption | simp))
      apply (rule changed; assumption)
      done
  qed
qed

lemma includes_str_self: "includes_str s s"
  by (cases s) simp_all

lemma includes_str_suffix: "includes_str (p @ sub) sub"
  by (induction p) (simp_all add: includes_str_self)

lemma notFound_includes:
  "includes_str (''Stack with id '' @ n @ '' does not exist'') ''does not exist''"
proof -
  have "includes_str ((''Stack with id '' @ n @ '' '') @ ''does not exist'') ''does not exist''"
    by (rule includes_str_suffix)
  then show ?thesis by simp
qed

lemma deployStack_not_deployed:
  assumes "environment (stack options) = Some env"
    and "\<not> isSet (force options)"
    and "sdk_cloudFormation sdk (account env) (region env) w = (Inr (), w1)"
    and "getDeployedTemplate sdk (deployNameOf options) w1 = (Inr None, w2, gd)"
  shows "deployStack sdk options w =
           (case deployStack_assets sdk options (deployNameOf options) w2 of
              (r, w3, tr) \<Rightarrow>
                (r, w3, CloudFormationEv (account env) (region env) (Inr ()) # gd @ tr))"
  using assms
  by (simp add: deployStack_def Let_def await_run request_run split: prod.splits sum.splits)












lemma getDeployedTemplate_reads:
  assumes "getDeployedTemplate sdk n w = (r, w', tr)"
  shows "\<not> list_ex mutating tr"
  using getDeployedTemplate_log [OF assms] by auto

text \<open>The string of an object starts with its first key, and the quoting of keys is
  one to one: objects whose first keys differ have different strings.\<close>

lemma below_16: "(a::nat) < 16 \<Longrightarrow>
  a = 0 \<or> a = 1 \<or> a = 2 \<or> a = 3 \<or> a = 4 \<or> a = 5 \<or> a = 6 \<or> a = 7 \<or>
  a = 8 \<or> a = 9 \<or> a = 10 \<or> a = 11 \<or> a = 12 \<or> a = 13 \<or> a = 14 \<or> a = 15"
  by arith

lemma hexDigit_code:
  assumes "a < 16"
  shows "of_char (hexDigit a) = (if a < 10 then 48 + a else 87 + a)"
  using below_16 [OF assms] by (elim disjE) (simp_all add: hexDigit_def)

lemma hexDigit_inj:
  assumes "a < 16" and "b < 16" and "hexDigit a = hexDigit b"
  shows "a = b"
proof -
  from assms(3) have "(of_char (hexDigit a) :: nat) = of_char (hexDigit b)" by simp
  with assms(1,2) show ?thesis by (simp add: hexDigit_code split: if_splits)
qed


lemma hexDigit_mod: "hexDigit (n mod 16) = hexDigit n"
  by (simp add: hexDigit_def)

lemma unicode_escape_inj:
  assumes "of_char c < (32::nat)" and "of_char c' < (32::nat)"
    and "hexDigit (of_char c div 16) = hexDigit (of_char c' div 16)"
    and "hexDigit (of_char c) = hexDigit (of_char c')"
  shows "c = c'"
proof -
  have "(of_char c :: nat) div 16 = of_char c' div 16"
    using assms(1,2,3) by (intro hexDigit_inj) simp_all
  moreover have "(of_char c :: nat) mod 16 = of_char c' mod 16"
    using assms(4) by (intro hexDigit_inj) (simp_all add: hexDigit_mod)
  ultimately have "(of_char c :: nat) = of_char c'"
    by (metis div_mult_mod_eq)
  then show ?thesis by simp
qed

lemma escapeChar_prefix:
  assumes "escapeChar c @ X = escapeChar c' @ X'"
  shows "c = c'"
  using assms
  by (auto simp: escapeChar_def split: if_splits dest: unicode_escape_inj)

lemma escapeChar_not_quote: "escapeChar c @ Y \<noteq> CHR 0x22 # R"
  by (auto simp: escapeChar_def split: if_splits)

lemma escaped_body_inj:
  assumes "concat (map escapeChar k) @ CHR 0x22 # R = concat (map escapeChar k') @ CHR 0x22 # R'"
  shows "k = k'"
  using assms
proof (induction k arbitrary: k')
  case Nil
  show ?case
  proof (cases k')
    case (Cons c' cs')
    with Nil have "escapeChar c' @ (concat (map escapeChar cs') @ CHR 0x22 # R') = CHR 0x22 # R"
      by simp
    with escapeChar_not_quote show ?thesis by blast
  qed simp
next
  case (Cons c cs)
  show ?case
  proof (cases k')
    case Nil
    with Cons.prems
    have "escapeChar c @ (concat (map escapeChar cs) @ CHR 0x22 # R) = CHR 0x22 # R'"
      by simp
    with escapeChar_not_quote show ?thesis by blast
  next
    case (Cons c' cs')
    with Cons.prems have eq: "escapeChar c @ (concat (map escapeChar cs) @ CHR 0x22 # R) =
        escapeChar c' @ (concat (map escapeChar cs') @ CHR 0x22 # R')" by simp
    then have "c = c'" by (rule escapeChar_prefix)
    with eq have "concat (map escapeChar cs) @ CHR 0x22 # R =
        concat (map escapeChar cs') @ CHR 0x22 # R'" by simp
    then have "cs = cs'" by (rule Cons.IH)
    with \<open>c = c'\<close> Cons show ?thesis by simp
  qed
qed

lemma stringify_object_head:
  "\<exists>T. stringify (JObj ((k, v) # kvs)) =
         CHR ''{'' # CHR 0x22 # concat (map escapeChar k) @ CHR 0x22 # T"
  by (cases kvs) (simp_all add: quote_def)

lemma stringify_first_key:
  assumes "k \<noteq> k'"
  shows "stringify (JObj ((k, v) # kvs)) \<noteq> stringify (JObj ((k', v') # kvs'))"
proof
  assume eq: "stringify (JObj ((k, v) # kvs)) = stringify (JObj ((k', v') # kvs'))"
  obtain T where T: "stringify (JObj ((k, v) # kvs)) =
      CHR ''{'' # CHR 0x22 # concat (map escapeChar k) @ CHR 0x22 # T"
    using stringify_object_head by blast
  obtain T' where T': "stringify (JObj ((k', v') # kvs')) =
      CHR ''{'' # CHR 0x22 # concat (map escapeChar k') @ CHR 0x22 # T'"
    using stringify_object_head by blast
  from eq T T' have "concat (map escapeChar k) @ CHR 0x22 # T =
      concat (map escapeChar k') @ CHR 0x22 # T'" by simp
  then have "k = k'" by (rule escaped_body_inj)
  with assms show False by simp
qed

lemma fold_outputs:
  "fold (\<lambda>output result. result(OutputKey output \<mapsto> OutputValue output)) os m =
     m ++ map_of (rev (map (\<lambda>output. (OutputKey output, OutputValue output)) os))"
  by (induction os arbitrary: m) (simp_all add: map_of_append)

lemma collectOutputs_eq:
  "collectOutputs description =
     map_of (rev (map (\<lambda>output. (OutputKey output, OutputValue output))
                         (case description of
                            None \<Rightarrow> []
                          | Some s \<Rightarrow> (case Outputs s of None \<Rightarrow> [] | Some os \<Rightarrow> os))))"
  by (simp add: collectOutputs_def fold_outputs split: option.splits)

lemma deployStack_assets_starts:
  assumes "deployStack_assets sdk options n w = (res, w', tr)"
  shows "\<exists>a rest. tr = PrepareAssetsEv a # rest"
  using assms by (cases rule: deployStack_assets_cases) auto

lemma deployStack_found_same:
  assumes "environment (stack options) = Some env"
    and "\<not> isSet (force options)"
    and "sdk_cloudFormation sdk (account env) (region env) w = (Inr (), w1)"
    and "getDeployedTemplate sdk (deployNameOf options) w1 = (Inr (Some (stackId, deployed)), w2, gd)"
    and "stringify (template (stack options)) = stringify deployed"
    and "describeStack sdk (deployNameOf options) w2 = (a, w3)"
  shows "deployStack sdk options w =
           (case a of
              Inl e \<Rightarrow> Inl e
            | Inr description \<Rightarrow>
                Inr \<lparr>noOp = True, outputs = collectOutputs description,
                     stackArn = Some stackId, stackArtifact = stack options\<rparr>,
            w3,
            CloudFormationEv (account env) (region env) (Inr ()) # gd @
              [DescribeStackEv (deployNameOf options) a])"
  using assms
  by (simp add: deployStack_def getStackOutputs_def Let_def run_simps split: sum.splits)

lemma deployStack_found_changed:
  assumes "environment (stack options) = Some env"
    and "\<not> isSet (force options)"
    and "sdk_cloudFormation sdk (account env) (region env) w = (Inr (), w1)"
    and "getDeployedTemplate sdk (deployNameOf options) w1 = (Inr (Some (stackId, deployed)), w2, gd)"
    and "stringify (template (stack options)) \<noteq> stringify deployed"
  shows "deployStack sdk options w =
           (case deployStack_assets sdk options (deployNameOf options) w2 of
              (r, w3, tr) \<Rightarrow>
                (r, w3, CloudFormationEv (account env) (region env) (Inr ()) # gd @ tr))"
  using assms
  by (simp add: deployStack_def Let_def await_run request_run split: prod.splits sum.splits)

section \<open>Evaluating the functions on the concrete inputs\<close>

lemmas example_defs =
  exampleService_def exampleOptions_def exampleStack_def oneChange_def deployedService_def
  deployedStack_def unchangedService_def stuckStack_def failedCreationService_def
  emptyChangeSet_def emptyChangeSetService_def reviewOptions_def waitError_def
  failingWaitService_def exampleDestroyOptions_def undeletableService_def
  emptyStack_def emptyOptions_def vanishedService_def notFound_def

lemmas function_defs =
  deployStack_def deployStack_assets_def deployStack_changeSet_def deployStack_finish_def
  executeOrReview_def recoverFailedCreation_def makeBodyParameter_def getStackOutputs_def
  getDeployedTemplate_def getStackId_def readCurrentTemplate_def notFoundHandler_def
  deployNameOf_def isSet_def passedParameters_def LARGE_TEMPLATE_SIZE_KB_def Let_def

lemmas stringify_defs = quote_def escapeChar_def numberToString_def

section \<open>The template body\<close>

text \<open>
  C4. Without a toolkit, \<open>makeBodyParameter\<close> throws exactly when the serialized
  template is longer than 50 * 1024, and it makes no call either way; with an environment
  on the stack the thrown value is the error that asks for \<^verbatim>\<open>cdk bootstrap\<close>; at or below
  the threshold it returns the serialized template inline. With a toolkit it uploads the
  serialized template, whatever its length, and returns the URL of the uploaded object
  (or throws what the upload threw).
\<close>

theorem makeBodyParameter_size_limit:
  "(isl (fst (makeBodyParameter sdk st None w)) \<longleftrightarrow>
      50 * 1024 < length (toYAML sdk (template st))) \<and>
   snd (makeBodyParameter sdk st None w) = (w, []) \<and>
   (50 * 1024 < length (toYAML sdk (template st)) \<and> environment st \<noteq> None \<longrightarrow>
      fst (makeBodyParameter sdk st None w) =
        Inl (Error ''Template too large to deploy (\"cdk bootstrap\" is required)'')) \<and>
   (length (toYAML sdk (template st)) \<le> 50 * 1024 \<longrightarrow>
      fst (makeBodyParameter sdk st None w) =
        Inr \<lparr>TemplateBody = Some (toYAML sdk (template st)), TemplateURL = None\<rparr>) \<and>
   (\<exists>props a w'.
      uploadIfChanged sdk tk (toYAML sdk (template st)) props w = (a, w') \<and>
      makeBodyParameter sdk st (Some tk) w =
        (case a of
           Inl e \<Rightarrow> Inl e
         | Inr key \<Rightarrow> Inr \<lparr>TemplateBody = None, TemplateURL = Some (bucketUrl tk @ ''/'' @ key)\<rparr>,
         w', [UploadIfChangedEv (toYAML sdk (template st)) props a]))"
proof -
  obtain a w' where up: "uploadIfChanged sdk tk (toYAML sdk (template st))
      \<lparr>s3KeyPrefix = ''cdk/'' @ artifactId st @ ''/'', s3KeySuffix = ''.yml'',
       contentType = ''application/x-yaml''\<rparr> w = (a, w')"
    by (cases "uploadIfChanged sdk tk (toYAML sdk (template st))
      \<lparr>s3KeyPrefix = ''cdk/'' @ artifactId st @ ''/'', s3KeySuffix = ''.yml'',
       contentType = ''application/x-yaml''\<rparr> w")
  have stored: "makeBodyParameter sdk st (Some tk) w =
        (case a of
           Inl e \<Rightarrow> Inl e
         | Inr key \<Rightarrow> Inr \<lparr>TemplateBody = None, TemplateURL = Some (bucketUrl tk @ ''/'' @ key)\<rparr>,
         w', [UploadIfChangedEv (toYAML sdk (template st))
           \<lparr>s3KeyPrefix = ''cdk/'' @ artifactId st @ ''/'', s3KeySuffix = ''.yml'',
            contentType = ''application/x-yaml''\<rparr> a])"
    using up by (simp add: makeBodyParameter_def Let_def run_simps split: sum.splits)
  have inline: "(isl (fst (makeBodyParameter sdk st None w)) \<longleftrightarrow>
      50 * 1024 < length (toYAML sdk (template st))) \<and>
   snd (makeBodyParameter sdk st None w) = (w, []) \<and>
   (50 * 1024 < length (toYAML sdk (template st)) \<and> environment st \<noteq> None \<longrightarrow>
      fst (makeBodyParameter sdk st None w) =
        Inl (Error ''Template too large to deploy (\"cdk bootstrap\" is required)'')) \<and>
   (length (toYAML sdk (template st)) \<le> 50 * 1024 \<longrightarrow>
      fst (makeBodyParameter sdk st None w) =
        Inr \<lparr>TemplateBody = Some (toYAML sdk (template st)), TemplateURL = None\<rparr>)"
    by (auto simp: makeBodyParameter_def Let_def run_simps LARGE_TEMPLATE_SIZE_KB_def
          templateTooLarge_def split: option.splits)
  from inline up stored show ?thesis by blast
qed

theorem makeBodyParameter_size_limit_witness:
  "isl (fst (makeBodyParameter oversizedService exampleStack None ())) \<and>
   50 * 1024 < length (toYAML oversizedService (template exampleStack)) \<and>
   environment exampleStack \<noteq> None \<and>
   makeBodyParameter oversizedService exampleStack None () =
     (Inl (Error ''Template too large to deploy (\"cdk bootstrap\" is required)''), (), [])"
  using makeBodyParameter_size_limit [of oversizedService exampleStack "()" exampleToolkit]
  by (simp add: oversizedService_def exampleService_def exampleStack_def prod_eq_iff)

text \<open>
  C5. Every value that \<open>makeBodyParameter\<close> returns sets exactly one of
  \<open>TemplateBody\<close> and \<open>TemplateURL\<close>.
\<close>

theorem makeBodyParameter_exclusive:
  assumes "makeBodyParameter sdk st tk w = (Inr p, w', tr)"
  shows "(TemplateBody p = None) \<noteq> (TemplateURL p = None)"
  using assms
  by (auto simp: makeBodyParameter_def Let_def run_simps
        split: option.splits if_splits prod.splits sum.splits)

theorem makeBodyParameter_exclusive_witness:
  "makeBodyParameter exampleService exampleStack None () =
     (Inr \<lparr>TemplateBody = Some ''{\"a\":1,\"b\":2}'', TemplateURL = None\<rparr>, (), []) \<and>
   (TemplateBody \<lparr>TemplateBody = Some ''{\"a\":1,\"b\":2}'', TemplateURL = None\<rparr> = None) \<noteq>
   (TemplateURL \<lparr>TemplateBody = Some ''{\"a\":1,\"b\":2}'', TemplateURL = None\<rparr> = None)"
proof -
  have run: "makeBodyParameter exampleService exampleStack None () =
     (Inr \<lparr>TemplateBody = Some ''{\"a\":1,\"b\":2}'', TemplateURL = None\<rparr>, (), [])"
    by (simp add: makeBodyParameter_def exampleService_def exampleStack_def Let_def run_simps
          LARGE_TEMPLATE_SIZE_KB_def quote_def escapeChar_def numberToString_def)
  from makeBodyParameter_exclusive [OF run] run show ?thesis by simp
qed

section \<open>The deployed stack\<close>

text \<open>
  C10. When \<^verbatim>\<open>describeStacks\<close> answers with no list of stacks, an empty list or more
  than one stack, \<open>getStackId\<close> returns nothing, \<open>getDeployedTemplate\<close> returns nothing
  without reading a template, and an unforced \<open>deployStack\<close> goes on with line 95 as
  if no stack were deployed. A stack id is returned only for a list of one stack.
\<close>

theorem getStackId_singleton_only:
  assumes "cfn_describeStacks sdk n w = (Inr stacks, w')"
  shows "((stacks = None \<or> stacks = Some [] \<or> (\<exists>l. stacks = Some l \<and> 1 < length l)) \<longrightarrow>
            getStackId sdk n w = (Inr None, w', [DescribeStacksEv n (Inr stacks)]) \<and>
            getDeployedTemplate sdk n w = (Inr None, w', [DescribeStacksEv n (Inr stacks)]) \<and>
            (\<forall>options env w0.
               environment (stack options) = Some env \<and> \<not> isSet (force options) \<and>
               deployNameOf options = n \<and>
               sdk_cloudFormation sdk (account env) (region env) w0 = (Inr (), w) \<longrightarrow>
               deployStack sdk options w0 =
                 (case deployStack_assets sdk options n w' of
                    (r, w3, tr) \<Rightarrow>
                      (r, w3, CloudFormationEv (account env) (region env) (Inr ()) #
                              DescribeStacksEv n (Inr stacks) # tr)))) \<and>
         (\<forall>i. fst (getStackId sdk n w) = Inr (Some i) \<longrightarrow>
              (\<exists>s. stacks = Some [s] \<and> StackId s = Some i))"
proof -
  have id: "getStackId sdk n w =
      (Inr (case stacks of None \<Rightarrow> None
            | Some l \<Rightarrow> if length l \<noteq> 1 then None else StackId (l ! 0)),
       w', [DescribeStacksEv n (Inr stacks)])"
    using assms by (simp add: getStackId_def run_simps split: option.splits)
  have only: "\<exists>s. stacks = Some [s] \<and> StackId s = Some i"
    if "fst (getStackId sdk n w) = Inr (Some i)" for i
  proof -
    from that id obtain l where l: "stacks = Some l" "length l = 1" "StackId (l ! 0) = Some i"
      by (auto split: option.splits if_splits)
    then obtain s where "l = [s]" by (cases l) auto
    with l show ?thesis by simp
  qed
  have absent: "getStackId sdk n w = (Inr None, w', [DescribeStacksEv n (Inr stacks)]) \<and>
      getDeployedTemplate sdk n w = (Inr None, w', [DescribeStacksEv n (Inr stacks)])"
    if "stacks = None \<or> stacks = Some [] \<or> (\<exists>l. stacks = Some l \<and> 1 < length l)"
    using that id by (auto simp: getDeployedTemplate_def run_simps)
  have proceeds: "deployStack sdk options w0 =
                 (case deployStack_assets sdk options n w' of
                    (r, w3, tr) \<Rightarrow>
                      (r, w3, CloudFormationEv (account env) (region env) (Inr ()) #
                              DescribeStacksEv n (Inr stacks) # tr))"
    if "stacks = None \<or> stacks = Some [] \<or> (\<exists>l. stacks = Some l \<and> 1 < length l)"
      and "environment (stack options) = Some env" and "\<not> isSet (force options)"
      and "deployNameOf options = n"
      and "sdk_cloudFormation sdk (account env) (region env) w0 = (Inr (), w)"
    for options env w0
    using deployStack_not_deployed [of options env sdk w0 w w' "[DescribeStacksEv n (Inr stacks)]"]
      that absent by simp
  from absent only proceeds show ?thesis by blast
qed

theorem getStackId_singleton_only_witness:
  "cfn_describeStacks exampleService ''Orders'' () = (Inr (Some []), ()) \<and>
   getStackId exampleService ''Orders'' () =
     (Inr None, (), [DescribeStacksEv ''Orders'' (Inr (Some []))]) \<and>
   getDeployedTemplate exampleService ''Orders'' () =
     (Inr None, (), [DescribeStacksEv ''Orders'' (Inr (Some []))])"
proof -
  have answer: "cfn_describeStacks exampleService ''Orders'' () = (Inr (Some []), ())"
    by (simp add: exampleService_def)
  from getStackId_singleton_only [OF answer] answer show ?thesis by simp
qed

text \<open>
  C7, as the specification states it, fails on the code. The stack of \<open>emptyOptions\<close>
  has the empty template, \<^verbatim>\<open>describeStacks\<close> finds the deployed stack, and
  \<^verbatim>\<open>getTemplate\<close> throws the error that says that the stack does not exist. The error
  is not propagated, but the stack is not treated as not deployed and \<open>deployStack\<close>
  does not go on: it returns a no-op result with the id of the stack that was found,
  and it prepares no assets and creates no changeset.
\<close>

theorem notFound_template_skips_empty_stack:
  "code (notFound ''Orders'') = Some ''ValidationError'' \<and>
   message (notFound ''Orders'') = ''Stack with id Orders does not exist'' \<and>
   force emptyOptions = None \<and>
   template (stack emptyOptions) = JObj [] \<and>
   cfn_getTemplate vanishedService ''Orders'' () = (Inl (notFound ''Orders''), ()) \<and>
   map_sum id noOp (fst (deployStack vanishedService emptyOptions ())) = Inr True \<and>
   map_sum id stackArn (fst (deployStack vanishedService emptyOptions ())) =
     Inr (Some ''arn:Orders'') \<and>
   snd (snd (deployStack vanishedService emptyOptions ())) =
     [CloudFormationEv ''123'' ''eu-west-1'' (Inr ()),
      DescribeStacksEv ''Orders'' (Inr (Some [deployedStack])),
      GetTemplateEv ''Orders'' (Inl (notFound ''Orders'')),
      DescribeStackEv ''Orders'' (Inr (Some deployedStack))]"
  by (simp add: example_defs function_defs run_simps)

text \<open>
  C7, amended. The error with which the remote service says that the stack does not
  exist (code \<^verbatim>\<open>ValidationError\<close>, message \<^verbatim>\<open>Stack with id <name> does not exist\<close>) is
  never propagated by the two fetches. Thrown by \<^verbatim>\<open>describeStacks\<close>, it makes
  \<open>getStackId\<close> and \<open>getDeployedTemplate\<close> return nothing: the stack is treated as
  not deployed, and an unforced \<open>deployStack\<close> goes on with line 95. Thrown by
  \<^verbatim>\<open>getTemplate\<close> once a stack id was found, it makes \<open>readCurrentTemplate\<close> return the
  empty document, and an unforced \<open>deployStack\<close> compares the desired template with
  the empty document as with any deployed template: it goes on with line 95 when their
  \<^verbatim>\<open>JSON.stringify\<close> strings differ, and when they are equal it reads the description
  of the stack and returns a no-op result with the id that was found (or throws what
  that read threw).
\<close>

theorem notFound_is_absence:
  assumes "code e = Some ''ValidationError''"
    and "message e = ''Stack with id '' @ n @ '' does not exist''"
  shows "(cfn_describeStacks sdk n w = (Inl e, w') \<longrightarrow>
            getStackId sdk n w = (Inr None, w', [DescribeStacksEv n (Inl e)]) \<and>
            getDeployedTemplate sdk n w = (Inr None, w', [DescribeStacksEv n (Inl e)]) \<and>
            (\<forall>options env w0.
               environment (stack options) = Some env \<and> \<not> isSet (force options) \<and>
               deployNameOf options = n \<and>
               sdk_cloudFormation sdk (account env) (region env) w0 = (Inr (), w) \<longrightarrow>
               deployStack sdk options w0 =
                 (case deployStack_assets sdk options n w' of
                    (r, w3, tr) \<Rightarrow>
                      (r, w3, CloudFormationEv (account env) (region env) (Inr ()) #
                              DescribeStacksEv n (Inl e) # tr)))) \<and>
         (cfn_getTemplate sdk n w = (Inl e, w') \<longrightarrow>
            readCurrentTemplate sdk n w = (Inr (JObj []), w', [GetTemplateEv n (Inl e)]) \<and>
            (\<forall>w0 stackId tr0.
               getStackId sdk n w0 = (Inr (Some stackId), w, tr0) \<and> stackId \<noteq> [] \<longrightarrow>
               getDeployedTemplate sdk n w0 =
                 (Inr (Some (stackId, JObj [])), w', tr0 @ [GetTemplateEv n (Inl e)]) \<and>
               (\<forall>options env w00.
                  environment (stack options) = Some env \<and> \<not> isSet (force options) \<and>
                  deployNameOf options = n \<and>
                  sdk_cloudFormation sdk (account env) (region env) w00 = (Inr (), w0) \<longrightarrow>
                  (stringify (template (stack options)) \<noteq> stringify (JObj []) \<longrightarrow>
                     deployStack sdk options w00 =
                       (case deployStack_assets sdk options n w' of
                          (r, w3, tr) \<Rightarrow>
                            (r, w3, CloudFormationEv (account env) (region env) (Inr ()) #
                                    tr0 @ GetTemplateEv n (Inl e) # tr))) \<and>
                  (stringify (template (stack options)) = stringify (JObj []) \<longrightarrow>
                     (\<forall>a w3. describeStack sdk n w' = (a, w3) \<longrightarrow>
                        deployStack sdk options w00 =
                          (case a of
                             Inl x \<Rightarrow> Inl x
                           | Inr description \<Rightarrow>
                               Inr \<lparr>noOp = True,
                                    outputs =
                                      map_of (rev (map (\<lambda>output. (OutputKey output, OutputValue output))
                         (case description of
                            None \<Rightarrow> []
                          | Some s \<Rightarrow> (case Outputs s of None \<Rightarrow> [] | Some os \<Rightarrow> os)))),
                                    stackArn = Some stackId,
                                    stackArtifact = stack options\<rparr>,
                           w3,
                           CloudFormationEv (account env) (region env) (Inr ()) #
                             tr0 @ [GetTemplateEv n (Inl e), DescribeStackEv n a]))))))"
proof -
  have inc: "includes_str (message e) ''does not exist''"
    using assms(2) notFound_includes by simp
  have id: "getStackId sdk n w = (Inr None, w', [DescribeStacksEv n (Inl e)])"
    if "cfn_describeStacks sdk n w = (Inl e, w')"
    using that inc by (simp add: getStackId_def run_simps)
  have dep: "getDeployedTemplate sdk n w = (Inr None, w', [DescribeStacksEv n (Inl e)])"
    if "cfn_describeStacks sdk n w = (Inl e, w')"
    using id [OF that] by (simp add: getDeployedTemplate_def run_simps)
  have proceeds: "deployStack sdk options w0 =
                 (case deployStack_assets sdk options n w' of
                    (r, w3, tr) \<Rightarrow>
                      (r, w3, CloudFormationEv (account env) (region env) (Inr ()) #
                              DescribeStacksEv n (Inl e) # tr))"
    if "cfn_describeStacks sdk n w = (Inl e, w')"
      and "environment (stack options) = Some env" and "\<not> isSet (force options)"
      and "deployNameOf options = n"
      and "sdk_cloudFormation sdk (account env) (region env) w0 = (Inr (), w)"
    for options env w0
    using deployStack_not_deployed [of options env sdk w0 w w' "[DescribeStacksEv n (Inl e)]"]
      that dep by simp
  have tmpl: "readCurrentTemplate sdk n w = (Inr (JObj []), w', [GetTemplateEv n (Inl e)])"
    if "cfn_getTemplate sdk n w = (Inl e, w')"
    using that assms by (simp add: readCurrentTemplate_def notFoundHandler_def run_simps)
  have both: "getDeployedTemplate sdk n w0 =
                 (Inr (Some (stackId, JObj [])), w', tr0 @ [GetTemplateEv n (Inl e)])"
    if "cfn_getTemplate sdk n w = (Inl e, w')"
      and "getStackId sdk n w0 = (Inr (Some stackId), w, tr0)" and "stackId \<noteq> []"
    for w0 stackId tr0
    using that tmpl by (simp add: getDeployedTemplate_def run_simps)
  have differs: "deployStack sdk options w00 =
                       (case deployStack_assets sdk options n w' of
                          (r, w3, tr) \<Rightarrow>
                            (r, w3, CloudFormationEv (account env) (region env) (Inr ()) #
                                    tr0 @ GetTemplateEv n (Inl e) # tr))"
    if "cfn_getTemplate sdk n w = (Inl e, w')"
      and "getStackId sdk n w0 = (Inr (Some stackId), w, tr0)" and "stackId \<noteq> []"
      and "environment (stack options) = Some env" and "\<not> isSet (force options)"
      and "deployNameOf options = n"
      and "sdk_cloudFormation sdk (account env) (region env) w00 = (Inr (), w0)"
      and "stringify (template (stack options)) \<noteq> stringify (JObj [])"
    for w0 stackId tr0 options env w00
    using deployStack_found_changed [of options env sdk w00 w0 stackId "JObj []" w'
        "tr0 @ [GetTemplateEv n (Inl e)]"] both [OF that(1-3)] that(4-8)
    by simp
  have equal: "deployStack sdk options w00 =
                          (case a of
                             Inl x \<Rightarrow> Inl x
                           | Inr description \<Rightarrow>
                               Inr \<lparr>noOp = True,
                                    outputs =
                                      map_of (rev (map (\<lambda>output. (OutputKey output, OutputValue output))
                         (case description of
                            None \<Rightarrow> []
                          | Some s \<Rightarrow> (case Outputs s of None \<Rightarrow> [] | Some os \<Rightarrow> os)))),
                                    stackArn = Some stackId,
                                    stackArtifact = stack options\<rparr>,
                           w3,
                           CloudFormationEv (account env) (region env) (Inr ()) #
                             tr0 @ [GetTemplateEv n (Inl e), DescribeStackEv n a])"
    if "cfn_getTemplate sdk n w = (Inl e, w')"
      and "getStackId sdk n w0 = (Inr (Some stackId), w, tr0)" and "stackId \<noteq> []"
      and "environment (stack options) = Some env" and "\<not> isSet (force options)"
      and "deployNameOf options = n"
      and "sdk_cloudFormation sdk (account env) (region env) w00 = (Inr (), w0)"
      and "stringify (template (stack options)) = stringify (JObj [])"
      and "describeStack sdk n w' = (a, w3)"
    for w0 stackId tr0 options env w00 a w3
    using deployStack_found_same [of options env sdk w00 w0 stackId "JObj []" w'
        "tr0 @ [GetTemplateEv n (Inl e)]" a w3] both [OF that(1-3)] that(4-9)
    by (simp add: collectOutputs_eq split: sum.splits)
  from id dep proceeds tmpl both differs equal show ?thesis by blast
qed

theorem notFound_is_absence_witness:
  "code (notFound ''Orders'') = Some ''ValidationError'' \<and>
   message (notFound ''Orders'') = ''Stack with id '' @ ''Orders'' @ '' does not exist'' \<and>
   cfn_describeStacks absentService ''Orders'' () = (Inl (notFound ''Orders''), ()) \<and>
   getStackId absentService ''Orders'' () =
     (Inr None, (), [DescribeStacksEv ''Orders'' (Inl (notFound ''Orders''))]) \<and>
   cfn_getTemplate absentService ''Orders'' () = (Inl (notFound ''Orders''), ()) \<and>
   readCurrentTemplate absentService ''Orders'' () =
     (Inr (JObj []), (), [GetTemplateEv ''Orders'' (Inl (notFound ''Orders''))]) \<and>
   cfn_getTemplate vanishedService ''Orders'' () = (Inl (notFound ''Orders''), ()) \<and>
   getStackId vanishedService ''Orders'' () =
     (Inr (Some ''arn:Orders''), (),
      [DescribeStacksEv ''Orders'' (Inr (Some [deployedStack]))]) \<and>
   stringify (template (stack exampleOptions)) \<noteq> stringify (JObj []) \<and>
   take 4 (snd (snd (deployStack vanishedService exampleOptions ()))) =
     [CloudFormationEv ''123'' ''eu-west-1'' (Inr ()),
      DescribeStacksEv ''Orders'' (Inr (Some [deployedStack])),
      GetTemplateEv ''Orders'' (Inl (notFound ''Orders'')),
      PrepareAssetsEv (Inr [])] \<and>
   map_sum id noOp (fst (deployStack vanishedService exampleOptions ())) = Inr False"
proof -
  have c: "code (notFound ''Orders'') = Some ''ValidationError''"
    and m: "message (notFound ''Orders'') = ''Stack with id '' @ ''Orders'' @ '' does not exist''"
    by (simp_all add: notFound_def)
  have d: "cfn_describeStacks absentService ''Orders'' () = (Inl (notFound ''Orders''), ())"
    and t: "cfn_getTemplate absentService ''Orders'' () = (Inl (notFound ''Orders''), ())"
    by (simp_all add: absentService_def exampleService_def)
  have t': "cfn_getTemplate vanishedService ''Orders'' () = (Inl (notFound ''Orders''), ())"
    and i: "getStackId vanishedService ''Orders'' () =
     (Inr (Some ''arn:Orders''), (),
      [DescribeStacksEv ''Orders'' (Inr (Some [deployedStack]))])"
    by (simp_all add: vanishedService_def deployedService_def exampleService_def
          deployedStack_def getStackId_def run_simps)
  have differ: "stringify (template (stack exampleOptions)) \<noteq> stringify (JObj [])"
    by (simp add: exampleOptions_def exampleStack_def stringify_defs)
  have run: "take 4 (snd (snd (deployStack vanishedService exampleOptions ()))) =
     [CloudFormationEv ''123'' ''eu-west-1'' (Inr ()),
      DescribeStacksEv ''Orders'' (Inr (Some [deployedStack])),
      GetTemplateEv ''Orders'' (Inl (notFound ''Orders'')),
      PrepareAssetsEv (Inr [])]"
    and res: "map_sum id noOp (fst (deployStack vanishedService exampleOptions ())) = Inr False"
    by (simp_all add: example_defs function_defs stringify_defs run_simps)
  from notFound_is_absence [OF c m, of absentService "()" "()"]
    notFound_is_absence [OF c m, of vanishedService "()" "()"] c m d t t' i differ run res
  show ?thesis by simp
qed

section \<open>Destroying a stack\<close>

text \<open>
  C8. Whenever \<open>destroyStack\<close> finds that no stack exists under the deploy name, it
  returns without throwing, and the calls it has made are the client's creation and the
  existence check: no delete request, and the monitor is not started.
\<close>

theorem destroyStack_absent_noop:
  assumes "destroyStack sdk options w = (res, w', tr)"
    and "StackExistsEv n (Inr False) \<in> set tr"
  shows "res = Inr () \<and> \<not> list_ex isDeleteStack tr \<and> \<not> list_ex isMonitorStart tr \<and>
         (\<exists>a r. tr = [CloudFormationEv a r (Inr ()), StackExistsEv n (Inr False)])"
  using assms
  unfolding destroyStack_def Let_def
  by (auto elim!: awaitE requestE simp: ret_run throw_run emit_run split: option.splits if_splits)

theorem destroyStack_absent_noop_witness:
  "destroyStack exampleService exampleDestroyOptions () =
     (Inr (), (), [CloudFormationEv ''123'' ''eu-west-1'' (Inr ()),
                   StackExistsEv ''Orders'' (Inr False)]) \<and>
   \<not> list_ex isDeleteStack (snd (snd (destroyStack exampleService exampleDestroyOptions ()))) \<and>
   \<not> list_ex isMonitorStart (snd (snd (destroyStack exampleService exampleDestroyOptions ())))"
proof -
  have run: "destroyStack exampleService exampleDestroyOptions () =
     (Inr (), (), [CloudFormationEv ''123'' ''eu-west-1'' (Inr ()),
                   StackExistsEv ''Orders'' (Inr False)])"
    by (simp add: destroyStack_def exampleService_def exampleDestroyOptions_def exampleStack_def
          deployNameOf_def Let_def run_simps)
  from destroyStack_absent_noop [OF run, of "''Orders''"] run show ?thesis by simp
qed

section \<open>Skipping an unchanged stack\<close>

text \<open>
  C1, as the specification states it, fails on the code: the deployed template of
  \<open>deployedService\<close> is the template of \<open>exampleOptions\<close> with its two keys in the
  other order, the two documents are equal by deep structural equality, force is unset,
  and \<open>deployStack\<close> does not return a no-op: it prepares the assets, creates a
  changeset and executes it.
\<close>

theorem key_order_triggers_deployment:
  "force exampleOptions = None \<and>
   getDeployedTemplate deployedService ''Orders'' () =
     (Inr (Some (''arn:Orders'', JObj [(''b'', JNum 2), (''a'', JNum 1)])), (),
      [DescribeStacksEv ''Orders'' (Inr (Some [deployedStack])),
       GetTemplateEv ''Orders'' (Inr (Some ''{b: 2, a: 1}''))]) \<and>
   deepEqual (template (stack exampleOptions)) (JObj [(''b'', JNum 2), (''a'', JNum 1)]) \<and>
   map_sum id noOp (fst (deployStack deployedService exampleOptions ())) = Inr False \<and>
   map isCreateChangeSet (filter mutating (snd (snd (deployStack deployedService exampleOptions ())))) =
     [False, True, False] \<and>
   list_ex isExecuteChangeSet (snd (snd (deployStack deployedService exampleOptions ())))"
  by (simp add: example_defs function_defs stringify_defs run_simps)

text \<open>
  C1, amended. With force unset and a stack found by \<open>getDeployedTemplate\<close>,
  \<open>deployStack\<close> compares the \<^verbatim>\<open>JSON.stringify\<close> strings of the desired and of the
  deserialized deployed template, and nothing else decides. When the strings are equal
  it reads the description of the stack and returns a no-op result with the id of the
  deployed stack and with the outputs of that description, each \<^verbatim>\<open>OutputKey\<close> mapped to
  its \<^verbatim>\<open>OutputValue\<close>, the last one where a key is listed twice (or it throws what
  reading the description threw), and none of the calls it has made is a mutating one.
  When the strings differ it goes on with line 95, and its next call is
  \<^verbatim>\<open>prepareAssets\<close>. The strings list the properties of an object in their order: two
  objects whose first properties have different keys have different strings, as
  \<^verbatim>\<open>{a: 1, b: 2}\<close> and \<^verbatim>\<open>{b: 2, a: 1}\<close> have.
\<close>

theorem deployStack_skips_unchanged:
  assumes "environment (stack options) = Some env"
    and "force options \<noteq> Some True"
    and "sdk_cloudFormation sdk (account env) (region env) w = (Inr (), w1)"
    and "getDeployedTemplate sdk (deployNameOf options) w1 = (Inr (Some (stackId, deployed)), w2, gd)"
  shows "(stringify (template (stack options)) = stringify deployed \<longrightarrow>
            (\<forall>a w3. describeStack sdk (deployNameOf options) w2 = (a, w3) \<longrightarrow>
               deployStack sdk options w =
                 (case a of
                    Inl e \<Rightarrow> Inl e
                  | Inr description \<Rightarrow>
                      Inr \<lparr>noOp = True,
                           outputs =
                             map_of (rev (map (\<lambda>output. (OutputKey output, OutputValue output))
                         (case description of
                            None \<Rightarrow> []
                          | Some s \<Rightarrow> (case Outputs s of None \<Rightarrow> [] | Some os \<Rightarrow> os)))),
                           stackArn = Some stackId, stackArtifact = stack options\<rparr>,
                  w3,
                  CloudFormationEv (account env) (region env) (Inr ()) # gd @
                    [DescribeStackEv (deployNameOf options) a]) \<and>
               \<not> list_ex mutating (snd (snd (deployStack sdk options w))))) \<and>
         (stringify (template (stack options)) \<noteq> stringify deployed \<longrightarrow>
            deployStack sdk options w =
              (case deployStack_assets sdk options (deployNameOf options) w2 of
                 (r, w3, tr) \<Rightarrow>
                   (r, w3, CloudFormationEv (account env) (region env) (Inr ()) # gd @ tr)) \<and>
            (\<exists>a rest. snd (snd (deployStack sdk options w)) =
               CloudFormationEv (account env) (region env) (Inr ()) # gd @
                 PrepareAssetsEv a # rest)) \<and>
         (\<forall>k v kvs k' v' kvs'.
            k \<noteq> k' \<longrightarrow>
            stringify (JObj ((k, v) # kvs)) \<noteq> stringify (JObj ((k', v') # kvs'))) \<and>
         stringify (JObj [(''a'', JNum 1), (''b'', JNum 2)]) \<noteq>
           stringify (JObj [(''b'', JNum 2), (''a'', JNum 1)])"
proof -
  have unforced: "\<not> isSet (force options)"
    using assms(2) by (simp add: isSet_def)
  have quiet: "\<not> list_ex mutating gd"
    using assms(4) by (rule getDeployedTemplate_reads)
  have same: "deployStack sdk options w =
                 (case a of
                    Inl e \<Rightarrow> Inl e
                  | Inr description \<Rightarrow>
                      Inr \<lparr>noOp = True,
                           outputs =
                             map_of (rev (map (\<lambda>output. (OutputKey output, OutputValue output))
                         (case description of
                            None \<Rightarrow> []
                          | Some s \<Rightarrow> (case Outputs s of None \<Rightarrow> [] | Some os \<Rightarrow> os)))),
                           stackArn = Some stackId, stackArtifact = stack options\<rparr>,
                  w3,
                  CloudFormationEv (account env) (region env) (Inr ()) # gd @
                    [DescribeStackEv (deployNameOf options) a]) \<and>
               \<not> list_ex mutating (snd (snd (deployStack sdk options w)))"
    if "stringify (template (stack options)) = stringify deployed"
      and "describeStack sdk (deployNameOf options) w2 = (a, w3)" for a w3
    using deployStack_found_same [OF assms(1) unforced assms(3) assms(4) that] quiet
    by (simp add: collectOutputs_eq split: sum.splits)
  have changed: "deployStack sdk options w =
              (case deployStack_assets sdk options (deployNameOf options) w2 of
                 (r, w3, tr) \<Rightarrow>
                   (r, w3, CloudFormationEv (account env) (region env) (Inr ()) # gd @ tr)) \<and>
            (\<exists>a rest. snd (snd (deployStack sdk options w)) =
               CloudFormationEv (account env) (region env) (Inr ()) # gd @
                 PrepareAssetsEv a # rest)"
    if differ: "stringify (template (stack options)) \<noteq> stringify deployed"
  proof -
    obtain r w3 tr
      where rest: "deployStack_assets sdk options (deployNameOf options) w2 = (r, w3, tr)"
      by (cases "deployStack_assets sdk options (deployNameOf options) w2")
    from deployStack_assets_starts [OF rest] obtain a tl' where "tr = PrepareAssetsEv a # tl'"
      by blast
    with deployStack_found_changed [OF assms(1) unforced assms(3) assms(4) differ] rest
    show ?thesis by simp
  qed
  have order: "stringify (JObj [(''a'', JNum 1), (''b'', JNum 2)]) \<noteq>
           stringify (JObj [(''b'', JNum 2), (''a'', JNum 1)])"
    by (simp add: stringify_defs)
  from same changed order stringify_first_key show ?thesis by blast
qed

theorem deployStack_skips_unchanged_witness:
  "map_sum id noOp (fst (deployStack unchangedService exampleOptions ())) = Inr True \<and>
   map_sum id stackArn (fst (deployStack unchangedService exampleOptions ())) =
     Inr (Some ''arn:Orders'') \<and>
   map_sum id (\<lambda>r. map (outputs r) [''Url'', ''Queue'', ''Topic''])
       (fst (deployStack unchangedService exampleOptions ())) =
     Inr [Some ''https://orders'', Some ''orders-queue'', None] \<and>
   snd (snd (deployStack unchangedService exampleOptions ())) =
     [CloudFormationEv ''123'' ''eu-west-1'' (Inr ()),
      DescribeStacksEv ''Orders'' (Inr (Some [deployedStack])),
      GetTemplateEv ''Orders'' (Inr (Some ''{a: 1, b: 2}'')),
      DescribeStackEv ''Orders'' (Inr (Some deployedStack))] \<and>
   \<not> list_ex mutating (snd (snd (deployStack unchangedService exampleOptions ())))"
proof -
  have env: "environment (stack exampleOptions) =
      Some \<lparr>account = ''123'', region = ''eu-west-1'', name = ''prod''\<rparr>"
    and unforced: "force exampleOptions \<noteq> Some True"
    and name: "deployNameOf exampleOptions = ''Orders''"
    by (simp_all add: exampleOptions_def exampleStack_def deployNameOf_def)
  have client: "sdk_cloudFormation unchangedService
      (account \<lparr>account = ''123'', region = ''eu-west-1'', name = ''prod''\<rparr>)
      (region \<lparr>account = ''123'', region = ''eu-west-1'', name = ''prod''\<rparr>) () = (Inr (), ())"
    by (simp add: example_defs)
  have found: "getDeployedTemplate unchangedService (deployNameOf exampleOptions) () =
      (Inr (Some (''arn:Orders'', JObj [(''a'', JNum 1), (''b'', JNum 2)])), (),
       [DescribeStacksEv ''Orders'' (Inr (Some [deployedStack])),
        GetTemplateEv ''Orders'' (Inr (Some ''{a: 1, b: 2}''))])"
    by (simp add: name example_defs function_defs run_simps)
  have same: "stringify (template (stack exampleOptions)) =
      stringify (JObj [(''a'', JNum 1), (''b'', JNum 2)])"
    by (simp add: exampleOptions_def exampleStack_def)
  have described: "describeStack unchangedService (deployNameOf exampleOptions) () =
      (Inr (Some deployedStack), ())"
    by (simp add: example_defs)
  have listed: "Outputs deployedStack =
      Some [\<lparr>OutputKey = ''Url'', OutputValue = ''https://orders''\<rparr>,
            \<lparr>OutputKey = ''Queue'', OutputValue = ''orders-queue''\<rparr>]"
    by (simp add: deployedStack_def)
  from deployStack_skips_unchanged [OF env unforced client found] same described
  have "deployStack unchangedService exampleOptions () =
      (Inr \<lparr>noOp = True,
            outputs = map_of (rev (map (\<lambda>output. (OutputKey output, OutputValue output))
              [\<lparr>OutputKey = ''Url'', OutputValue = ''https://orders''\<rparr>,
               \<lparr>OutputKey = ''Queue'', OutputValue = ''orders-queue''\<rparr>])),
            stackArn = Some ''arn:Orders'', stackArtifact = stack exampleOptions\<rparr>, (),
       [CloudFormationEv ''123'' ''eu-west-1'' (Inr ()),
        DescribeStacksEv ''Orders'' (Inr (Some [deployedStack])),
        GetTemplateEv ''Orders'' (Inr (Some ''{a: 1, b: 2}'')),
        DescribeStackEv ''Orders'' (Inr (Some deployedStack))])"
    by (simp add: name listed)
  then show ?thesis by simp
qed

section \<open>A stack that failed creation\<close>



section \<open>The changeset\<close>





section \<open>The monitor\<close>

text \<open>
  When \<open>deployStack\<close> returns a result, the monitor was either never started or
  started once and stopped once after that.
\<close>

lemma executeOrReview_monitor:
  assumes "executeOrReview sdk options n c d w = (Inr u, w', tr)"
  shows "monitorCalls tr = [] \<or> (\<exists>k. monitorCalls tr = [MonitorStartEv n k, MonitorStopEv n])"
  using executeOrReview_cases [OF assms]
  by (auto simp: monitorCalls_def split: if_splits sum.splits)

lemma deployStack_finish_monitor:
  assumes "deployStack_finish sdk options n c cs d w = (Inr r, w', tr)"
  shows "monitorCalls tr = [] \<or> (\<exists>k. monitorCalls tr = [MonitorStartEv n k, MonitorStopEv n])"
  using assms
proof (cases rule: deployStack_finish_cases)
  case (changed w1 ex a)
  with executeOrReview_monitor [OF changed(2)] show ?thesis
    by (auto simp: monitorCalls_def)
qed (auto simp: monitorCalls_def)

lemma deployStack_changeSet_monitor:
  assumes "deployStack_changeSet sdk options n p ident body w = (Inr r, w', tr)"
  shows "monitorCalls tr = [] \<or> (\<exists>k. monitorCalls tr = [MonitorStartEv n k, MonitorStopEv n])"
  using assms
proof (cases rule: deployStack_changeSet_cases)
  case (stabilized u i cs d w1 fin)
  with deployStack_finish_monitor [OF stabilized(2)] show ?thesis
    by (auto simp: monitorCalls_def)
qed auto

lemma deployStack_assets_monitor:
  assumes "deployStack_assets sdk options n w = (Inr r, w', tr)"
  shows "monitorCalls tr = [] \<or> (\<exists>k. monitorCalls tr = [MonitorStartEv n k, MonitorStopEv n])"
  using assms
proof (cases rule: deployStack_assets_cases)
  case (goesOn a w1 w2 mb body w3 rec p ident rest)
  have "monitorCalls (PrepareAssetsEv (Inr a) # mb @ rec) = []"
    using makeBodyParameter_log [OF goesOn(1)] recoverFailedCreation_cases [OF goesOn(2)]
    by (auto simp: monitorCalls_def)
  with deployStack_changeSet_monitor [OF goesOn(3)] goesOn(4) show ?thesis
    by (auto simp: monitorCalls_def)
qed auto

lemma deployStack_monitor_stopped_on_return:
  assumes "deployStack sdk options w = (Inr r, w', tr)"
  shows "monitorCalls tr = [] \<or>
         (\<exists>k. monitorCalls tr = [MonitorStartEv (deployNameOf options) k,
                                  MonitorStopEv (deployNameOf options)])"
  using assms
proof (cases rule: deployStack_cases)
  case (forced env w1 rest)
  with deployStack_assets_monitor [OF forced(3)] show ?thesis
    by (auto simp: monitorCalls_def)
next
  case (skipped env w1 w2 gd stackId deployed a)
  with getDeployedTemplate_log [OF skipped(3)] show ?thesis
    by (auto simp: monitorCalls_def)
next
  case (changed env w1 w2 gd found rest)
  have "monitorCalls (CloudFormationEv (account env) (region env) (Inr ()) # gd) = []"
    using getDeployedTemplate_log [OF changed(3)] by (auto simp: monitorCalls_def)
  with deployStack_assets_monitor [OF changed(4)] changed(5) show ?thesis
    by (auto simp: monitorCalls_def)
qed auto

text \<open>
  When the wait of \<open>destroyStack\<close> answers with a stack that is not deleted, the
  monitor is stopped before the error is thrown.
\<close>

lemma destroyStack_stops_before_status_error:
  "destroyStack undeletableService exampleDestroyOptions () =
     (Inl (Error ''Failed to destroy Orders: DELETE_FAILED''), (),
      [CloudFormationEv ''123'' ''eu-west-1'' (Inr ()),
       StackExistsEv ''Orders'' (Inr True),
       MonitorStartEv ''Orders'' None,
       DeleteStackEv ''Orders'' None (Inr ()),
       WaitForStackEv ''Orders'' (Some False) (Inr (Some stuckStack)),
       MonitorStopEv ''Orders''])"
  by (simp add: example_defs function_defs destroyStack_def run_simps)

text \<open>
  C2 asks for one call of the monitor's \<^verbatim>\<open>stop\<close> on every path that started the
  monitor, the paths that throw included. The code does not do that: here the monitor is
  started and the wait for the stack throws; \<open>deployStack\<close> and \<open>destroyStack\<close>
  both throw what the wait threw, the wait is their last call, and \<^verbatim>\<open>stop\<close> is not
  among the calls they have made.
\<close>

theorem monitor_not_stopped_when_wait_throws:
  "fst (deployStack failingWaitService exampleOptions ()) = Inl waitError \<and>
   monitorCalls (snd (snd (deployStack failingWaitService exampleOptions ()))) =
     [MonitorStartEv ''Orders'' (Some 1)] \<and>
   last (snd (snd (deployStack failingWaitService exampleOptions ()))) =
     WaitForStackEv ''Orders'' None (Inl waitError) \<and>
   destroyStack failingWaitService exampleDestroyOptions () =
     (Inl waitError, (),
      [CloudFormationEv ''123'' ''eu-west-1'' (Inr ()),
       StackExistsEv ''Orders'' (Inr True),
       MonitorStartEv ''Orders'' None,
       DeleteStackEv ''Orders'' None (Inr ()),
       WaitForStackEv ''Orders'' (Some False) (Inl waitError)])"
  by (simp add: example_defs function_defs destroyStack_def stringify_defs monitorCalls_def
        run_simps)

end
